theory Spec2Isabelle
  imports
    Complex_Main
    "HOL-Library.Multiset"
    "HOL-Library.AList"
    "HOL-Library.Char_ord"
    "HOL-Library.List_Lexorder"
    "HOL-Library.Product_Lexorder"
    "HOL-Library.Monad_Syntax"
    "HOL-Library.Log_Nat"
begin

section \<open>Python values\<close>

subsection \<open>Doubles\<close>

text \<open>
  A Python float is an IEEE 754 double. Its finite values are the rationals with a
  significand of 53 bits and an exponent in the range of the format; every arithmetic
  result is the exact result rounded to the nearest of them, ties to the even
  significand, and an infinity when the rounded value leaves the range. The special
  values follow IEEE 754, as numpy and pandas compute them (no exception is raised by
  array arithmetic). The sign of a zero is not modelled.
\<close>

definition pow2 :: "int \<Rightarrow> rat" where
  "pow2 e = (if 0 \<le> e then 2 ^ nat e else 1 / 2 ^ nat (- e))"

text \<open>The exponent of a positive rational: \<open>pow2 (ilog2 x) \<le> x < pow2 (ilog2 x + 1)\<close>.\<close>

definition ilog2 :: "rat \<Rightarrow> int" where
  "ilog2 x =
     (if 1 \<le> x then int (floorlog 2 (nat \<lfloor>x\<rfloor>)) - 1
      else - int (floorlog 2 (nat (\<lceil>1 / x\<rceil> - 1))))"

text \<open>Rounding a rational to the nearest integer, ties to the even one.\<close>

definition round_half_even :: "rat \<Rightarrow> int" where
  "round_half_even q =
     (let f = \<lfloor>q\<rfloor>; r = q - of_int f
      in if r < 1 / 2 then f
         else if 1 / 2 < r then f + 1
         else if even f then f else f + 1)"

text \<open>
  Rounding to 53 significant bits: the unit in the last place is \<open>2 ^ (e - 52)\<close> for a
  value of exponent \<open>e\<close>, and \<open>2 ^ -1074\<close> for the subnormal values.
\<close>

definition round53 :: "rat \<Rightarrow> rat" where
  "round53 q =
     (if q = 0 then 0
      else let ulp = pow2 (max (ilog2 \<bar>q\<bar>) (- 1022) - 52)
           in of_int (round_half_even (q / ulp)) * ulp)"

typedef double = "{x :: rat. x \<in> range round53 \<and> \<bar>x\<bar> < 2 ^ 1024}"
  morphisms val Abs_double
  by (rule exI [where x = 0]) (simp add: round53_def image_iff)

text \<open>The double nearest to a rational in the range, as a float literal denotes it.\<close>

definition dbl :: "rat \<Rightarrow> double" where
  "dbl q = Abs_double (if \<bar>round53 q\<bar> < 2 ^ 1024 then round53 q else 0)"

text \<open>A float: a finite double, an infinity or NaN.\<close>

datatype pyfloat = Fin double | PInf | NInf | NaN

text \<open>The float of an exact result: rounded, and an infinity when it overflows.\<close>

definition float_of_rat :: "rat \<Rightarrow> pyfloat" where
  "float_of_rat q =
     (if 2 ^ 1024 \<le> round53 q then PInf
      else if round53 q \<le> - (2 ^ 1024) then NInf
      else Fin (dbl q))"

text \<open>The conversion of an integer (a count, an index) to a float.\<close>

definition float_of_int :: "int \<Rightarrow> pyfloat" where
  "float_of_int i = float_of_rat (of_int i)"

definition float_of_nat :: "nat \<Rightarrow> pyfloat" where
  "float_of_nat n = float_of_rat (of_nat n)"

subsection \<open>Float arithmetic\<close>

definition signed_inf :: "bool \<Rightarrow> pyfloat" where
  "signed_inf positive = (if positive then PInf else NInf)"

fun fadd :: "pyfloat \<Rightarrow> pyfloat \<Rightarrow> pyfloat" where
  "fadd NaN _ = NaN"
| "fadd _ NaN = NaN"
| "fadd (Fin a) (Fin b) = float_of_rat (val a + val b)"
| "fadd PInf NInf = NaN"
| "fadd NInf PInf = NaN"
| "fadd PInf _ = PInf"
| "fadd _ PInf = PInf"
| "fadd NInf _ = NInf"
| "fadd _ NInf = NInf"

fun fsub :: "pyfloat \<Rightarrow> pyfloat \<Rightarrow> pyfloat" where
  "fsub NaN _ = NaN"
| "fsub _ NaN = NaN"
| "fsub (Fin a) (Fin b) = float_of_rat (val a - val b)"
| "fsub PInf PInf = NaN"
| "fsub NInf NInf = NaN"
| "fsub PInf _ = PInf"
| "fsub _ PInf = NInf"
| "fsub NInf _ = NInf"
| "fsub _ NInf = PInf"

fun fmul :: "pyfloat \<Rightarrow> pyfloat \<Rightarrow> pyfloat" where
  "fmul NaN _ = NaN"
| "fmul _ NaN = NaN"
| "fmul (Fin a) (Fin b) = float_of_rat (val a * val b)"
| "fmul (Fin a) PInf = (if val a = 0 then NaN else signed_inf (0 < val a))"
| "fmul (Fin a) NInf = (if val a = 0 then NaN else signed_inf (val a < 0))"
| "fmul PInf (Fin b) = (if val b = 0 then NaN else signed_inf (0 < val b))"
| "fmul NInf (Fin b) = (if val b = 0 then NaN else signed_inf (val b < 0))"
| "fmul PInf PInf = PInf"
| "fmul NInf NInf = PInf"
| "fmul PInf NInf = NInf"
| "fmul NInf PInf = NInf"

text \<open>
  Division of arrays (numpy, pandas): a zero divisor gives an infinity or NaN, it does
  not raise.
\<close>

fun fdiv :: "pyfloat \<Rightarrow> pyfloat \<Rightarrow> pyfloat" where
  "fdiv NaN _ = NaN"
| "fdiv _ NaN = NaN"
| "fdiv (Fin a) (Fin b) =
     (if val b = 0 then (if val a = 0 then NaN else signed_inf (0 < val a))
      else float_of_rat (val a / val b))"
| "fdiv (Fin a) PInf = Fin (dbl 0)"
| "fdiv (Fin a) NInf = Fin (dbl 0)"
| "fdiv PInf (Fin b) = signed_inf (0 \<le> val b)"
| "fdiv NInf (Fin b) = signed_inf (val b < 0)"
| "fdiv PInf PInf = NaN"
| "fdiv PInf NInf = NaN"
| "fdiv NInf PInf = NaN"
| "fdiv NInf NInf = NaN"

text \<open>
  The comparisons \<open>a > b\<close> and \<open>a >= b\<close> of two floats: false as soon as one of them
  is NaN.
\<close>

fun fgt :: "pyfloat \<Rightarrow> pyfloat \<Rightarrow> bool" where
  "fgt NaN _ = False"
| "fgt _ NaN = False"
| "fgt (Fin a) (Fin b) = (val b < val a)"
| "fgt PInf PInf = False"
| "fgt PInf _ = True"
| "fgt _ PInf = False"
| "fgt NInf _ = False"
| "fgt _ NInf = True"

fun fge :: "pyfloat \<Rightarrow> pyfloat \<Rightarrow> bool" where
  "fge NaN _ = False"
| "fge _ NaN = False"
| "fge (Fin a) (Fin b) = (val b \<le> val a)"
| "fge PInf _ = True"
| "fge _ NInf = True"
| "fge _ PInf = False"
| "fge NInf _ = False"

text \<open>
  The place of a float in an ascending sort (\<open>numpy.sort\<close> puts NaN last).
\<close>

fun sort_rank :: "pyfloat \<Rightarrow> nat \<times> rat" where
  "sort_rank NInf = (0, 0)"
| "sort_rank (Fin a) = (1, val a)"
| "sort_rank PInf = (2, 0)"
| "sort_rank NaN = (3, 0)"

text \<open>
  \<open>round(x, 2)\<close> of Python: the decimal with two places nearest to the exact value of
  the double (ties to the even last digit), read back as a double. The special values
  are unchanged.
\<close>

fun py_round2 :: "pyfloat \<Rightarrow> pyfloat" where
  "py_round2 (Fin a) = float_of_rat (of_int (round_half_even (val a * 100)) / 100)"
| "py_round2 x = x"

text \<open>
  \<open>Series.round(2)\<close> of pandas, which is \<open>numpy.round\<close>: the value is multiplied by
  100, rounded to the nearest integer (\<open>rint\<close>) and divided by 100, each of the three
  a float operation.
\<close>

fun rint :: "pyfloat \<Rightarrow> pyfloat" where
  "rint (Fin a) = float_of_rat (of_int (round_half_even (val a)))"
| "rint x = x"

definition np_round2 :: "pyfloat \<Rightarrow> pyfloat" where
  "np_round2 x = fdiv (rint (fmul x (Fin (dbl 100)))) (Fin (dbl 100))"

subsection \<open>Values of a JSON field\<close>

text \<open>
  The values \<open>json.loads\<close> yields for a field: \<open>None\<close> (JSON null, and what
  \<open>dict.get\<close> returns for an absent key), a bool, an unbounded int, a float, a string,
  or a container (list or dict), on which \<open>int()\<close> and \<open>float()\<close> raise TypeError
  whatever it holds. A string is a list of characters with code points up to U+00FF;
  characters beyond are outside the model.
\<close>

datatype pyval = PNone | PBool bool | PInt int | PFloat pyfloat | PStr string | PContainer

datatype error = ValueError

subsection \<open>Strings\<close>

definition is_digit :: "char \<Rightarrow> bool" where
  "is_digit c = (c \<in> set ''0123456789'')"

definition digit_val :: "char \<Rightarrow> nat" where
  "digit_val c = of_char c - 48"

definition nat_of_digits :: "string \<Rightarrow> nat" where
  "nat_of_digits ds = foldl (\<lambda>n c. 10 * n + digit_val c) 0 ds"

text \<open>
  Before they parse a string, \<open>int()\<close> and \<open>float()\<close> replace every non-ASCII character
  that Unicode classes as whitespace by a space. Up to U+00FF these are the next-line
  character U+0085 and the no-break space U+00A0. ASCII characters are left as they
  are.
\<close>

definition space_to_ascii :: "string \<Rightarrow> string" where
  "space_to_ascii s =
     map (\<lambda>c. if (of_char c :: nat) = 133 \<or> (of_char c :: nat) = 160 then CHR '' '' else c) s"

text \<open>
  The characters that the parsers of \<open>int()\<close> and \<open>float()\<close> then skip at both ends of
  the string (\<open>Py_ISSPACE\<close>): tab, line feed, vertical tab, form feed, carriage return
  and space.
\<close>

definition py_isspace :: "char \<Rightarrow> bool" where
  "py_isspace c = (let n = (of_char c :: nat) in (9 \<le> n \<and> n \<le> 13) \<or> n = 32)"

definition strip :: "string \<Rightarrow> string" where
  "strip s = rev (dropWhile py_isspace (rev (dropWhile py_isspace (space_to_ascii s))))"

definition lower :: "string \<Rightarrow> string" where
  "lower s = map (\<lambda>c. let n = (of_char c :: nat)
                      in if 65 \<le> n \<and> n \<le> 90 then char_of (n + 32) else c) s"

text \<open>
  A group of decimal digits in which single underscores may separate digits
  (\<open>digit (["_"] digit)*\<close>); the result is the digits without the underscores.
\<close>

fun dec_digits :: "string \<Rightarrow> string option" where
  "dec_digits [] = None"
| "dec_digits [c] = (if is_digit c then Some [c] else None)"
| "dec_digits (c # d # cs) =
     (if \<not> is_digit c then None
      else if d = CHR ''_'' then map_option ((#) c) (dec_digits cs)
      else map_option ((#) c) (dec_digits (d # cs)))"

fun opt_digits :: "string \<Rightarrow> string option" where
  "opt_digits [] = Some []"
| "opt_digits s = dec_digits s"

text \<open>An optional sign followed by what \<open>body\<close> reads; the bool is True for a minus.\<close>

definition signed :: "(string \<Rightarrow> 'a option) \<Rightarrow> string \<Rightarrow> (bool \<times> 'a) option" where
  "signed body s =
     (case s of
        [] \<Rightarrow> None
      | c # cs \<Rightarrow>
          if c = CHR ''-'' then map_option (Pair True) (body cs)
          else if c = CHR ''+'' then map_option (Pair False) (body cs)
          else map_option (Pair False) (body s))"

subsection \<open>\<open>int()\<close>\<close>

text \<open>
  The most digits that \<open>int()\<close> converts from a string (\<open>sys.int_info\<close>, the default
  since Python 3.11); a longer literal is a ValueError.
\<close>

definition max_str_digits :: nat where
  "max_str_digits = 4300"

text \<open>
  \<open>int(s)\<close> of a string, base 10: surrounding whitespace, an optional sign, digits.
  None stands for the ValueError.
\<close>

definition int_of_str :: "string \<Rightarrow> int option" where
  "int_of_str s =
     (case signed dec_digits (strip s) of
        None \<Rightarrow> None
      | Some (neg, ds) \<Rightarrow>
          if max_str_digits < length ds then None
          else Some (if neg then - int (nat_of_digits ds) else int (nat_of_digits ds)))"

text \<open>
  \<open>int(v)\<close>: None stands for the exception (TypeError on None and containers,
  ValueError on a string that is no integer literal and on NaN, OverflowError on an
  infinity). A finite float is truncated towards zero.
\<close>

fun py_int :: "pyval \<Rightarrow> int option" where
  "py_int PNone = None"
| "py_int (PBool b) = Some (if b then 1 else 0)"
| "py_int (PInt i) = Some i"
| "py_int (PFloat (Fin a)) = Some (if 0 \<le> val a then \<lfloor>val a\<rfloor> else \<lceil>val a\<rceil>)"
| "py_int (PFloat _) = None"
| "py_int (PStr s) = int_of_str s"
| "py_int PContainer = None"

subsection \<open>\<open>float()\<close>\<close>

text \<open>The mantissa of a decimal literal: the digits before and after the point.\<close>

definition mantissa :: "string \<Rightarrow> (string \<times> string) option" where
  "mantissa m =
     (let ip = takeWhile (\<lambda>c. c \<noteq> CHR ''.'') m; rest = dropWhile (\<lambda>c. c \<noteq> CHR ''.'') m
      in case rest of
           [] \<Rightarrow> map_option (\<lambda>ds. (ds, [])) (dec_digits ip)
         | _ # fp \<Rightarrow>
             if ip = [] \<and> fp = [] then None
             else (case (opt_digits ip, opt_digits fp) of
                     (Some a, Some b) \<Rightarrow> Some (a, b)
                   | _ \<Rightarrow> None))"

definition is_e :: "char \<Rightarrow> bool" where
  "is_e c = (c = CHR ''e'' \<or> c = CHR ''E'')"

text \<open>An unsigned decimal literal with optional fraction and exponent, as a rational.\<close>

definition decimal :: "string \<Rightarrow> rat option" where
  "decimal s =
     (let m = takeWhile (\<lambda>c. \<not> is_e c) s; rest = dropWhile (\<lambda>c. \<not> is_e c) s
      in case mantissa m of
           None \<Rightarrow> None
         | Some (ip, fp) \<Rightarrow>
             (let v = of_nat (nat_of_digits ip) + of_nat (nat_of_digits fp) / 10 ^ length fp
              in case rest of
                   [] \<Rightarrow> Some v
                 | _ # ex \<Rightarrow>
                     (case signed dec_digits ex of
                        None \<Rightarrow> None
                      | Some (neg, ds) \<Rightarrow>
                          Some (if neg then v / 10 ^ nat_of_digits ds
                                else v * 10 ^ nat_of_digits ds))))"

datatype literal = Infinity | NotANumber | Number rat

definition float_body :: "string \<Rightarrow> literal option" where
  "float_body s =
     (if lower s = ''inf'' \<or> lower s = ''infinity'' then Some Infinity
      else if lower s = ''nan'' then Some NotANumber
      else map_option Number (decimal s))"

text \<open>
  \<open>float(s)\<close> of a string: surrounding whitespace, an optional sign, and \<open>inf\<close>,
  \<open>infinity\<close>, \<open>nan\<close> in any case or a decimal literal, which reads as the double
  nearest to it, an infinity when it is beyond the range of a double. None stands for
  the ValueError.
\<close>

definition float_of_str :: "string \<Rightarrow> pyfloat option" where
  "float_of_str s =
     (case signed float_body (strip s) of
        None \<Rightarrow> None
      | Some (neg, Infinity) \<Rightarrow> Some (if neg then NInf else PInf)
      | Some (neg, NotANumber) \<Rightarrow> Some NaN
      | Some (neg, Number q) \<Rightarrow> Some (float_of_rat (if neg then - q else q)))"

text \<open>
  \<open>float(v)\<close>: None stands for the exception (TypeError on None and containers,
  ValueError on a string that is no float literal, OverflowError on an int that rounds
  to no finite double).
\<close>

fun py_float :: "pyval \<Rightarrow> pyfloat option" where
  "py_float PNone = None"
| "py_float (PBool b) = Some (float_of_int (if b then 1 else 0))"
| "py_float (PInt i) = (case float_of_int i of Fin a \<Rightarrow> Some (Fin a) | _ \<Rightarrow> None)"
| "py_float (PFloat x) = Some x"
| "py_float (PStr s) = float_of_str s"
| "py_float PContainer = None"

section \<open>The KPI aggregator (\<^verbatim>\<open>calcular_kpi.py\<close>)\<close>

subsection \<open>\<open>Agg\<close>\<close>

record Agg =
  elapsed :: "pyfloat list"
  requests_total :: int
  success_2xx :: int
  client_4xx :: int
  server_5xx :: int
  parse_errors :: int

text \<open>\<open>Agg(elapsed=[])\<close>, the default of the \<open>defaultdict\<close>.\<close>

definition new_Agg :: Agg where
  "new_Agg = \<lparr>elapsed = [], requests_total = 0, success_2xx = 0, client_4xx = 0,
              server_5xx = 0, parse_errors = 0\<rparr>"

definition count_status :: "int \<Rightarrow> Agg \<Rightarrow> Agg" where
  "count_status status_code self =
     (if 200 \<le> status_code \<and> status_code \<le> 299 then self\<lparr>success_2xx := success_2xx self + 1\<rparr>
      else if 400 \<le> status_code \<and> status_code \<le> 499 then self\<lparr>client_4xx := client_4xx self + 1\<rparr>
      else if 500 \<le> status_code \<and> status_code \<le> 599 then self\<lparr>server_5xx := server_5xx self + 1\<rparr>
      else self)"

definition count_parse :: "string \<Rightarrow> Agg \<Rightarrow> Agg" where
  "count_parse parse_result self =
     (if parse_result \<noteq> ''ok'' then self\<lparr>parse_errors := parse_errors self + 1\<rparr> else self)"

definition add :: "Agg \<Rightarrow> int \<Rightarrow> pyfloat \<Rightarrow> string \<Rightarrow> Agg" where
  "add self status_code elapsed_ms parse_result =
     count_parse parse_result
       (count_status status_code
          (self\<lparr>requests_total := requests_total self + 1,
                elapsed := elapsed self @ [elapsed_ms]\<rparr>))"

subsection \<open>\<open>numpy.mean\<close> and \<open>numpy.percentile\<close>\<close>

text \<open>
  The sum of a float array, as \<open>numpy\<close> reduces it with \<open>add\<close>. Fewer than 8 elements
  are added one after the other. Up to 128 elements are added in eight interleaved
  running sums, which are then combined in pairs, and the elements left over (fewer
  than 8) are added to the result. A longer array is cut in two, the first part of a
  length that is a multiple of 8, and the sums of the two parts are added.
\<close>

text \<open>The eight running sums \<open>r\<close> after the blocks of 8 elements of \<open>a\<close>.\<close>

fun running_sums :: "pyfloat list \<Rightarrow> pyfloat list \<Rightarrow> pyfloat list" where
  "running_sums r a =
     (if length a < 8 then r else running_sums (map2 fadd r (take 8 a)) (drop 8 a))"

function pairwise_sum :: "pyfloat list \<Rightarrow> pyfloat" where
  "pairwise_sum a =
     (let n = length a
      in if n < 8 then foldl fadd (Fin (dbl 0)) a
         else if n \<le> 128 then
           (let r = running_sums (take 8 a) (drop 8 a);
                res = fadd (fadd (fadd (r ! 0) (r ! 1)) (fadd (r ! 2) (r ! 3)))
                           (fadd (fadd (r ! 4) (r ! 5)) (fadd (r ! 6) (r ! 7)))
            in foldl fadd res (drop (n - n mod 8) a))
         else
           (let n2 = n div 2 - (n div 2) mod 8
            in fadd (pairwise_sum (take n2 a)) (pairwise_sum (drop n2 a))))"
  by pat_completeness auto
termination
  by (relation "measure length") auto

declare running_sums.simps [simp del]
declare pairwise_sum.simps [simp del]

text \<open>\<open>numpy.add.reduce\<close>: the reduction starts from 0.\<close>

definition np_sum :: "pyfloat list \<Rightarrow> pyfloat" where
  "np_sum a = fadd (Fin (dbl 0)) (pairwise_sum a)"

text \<open>\<open>numpy.mean\<close>: the sum divided by the number of elements.\<close>

definition np_mean :: "pyfloat list \<Rightarrow> pyfloat" where
  "np_mean xs = fdiv (np_sum xs) (float_of_nat (length xs))"

text \<open>
  \<open>_lerp\<close> of numpy: \<open>a + (b - a) * t\<close>, replaced by \<open>b - (b - a) * (1 - t)\<close> when the
  weight \<open>t\<close> is at least one half.
\<close>

definition lerp :: "pyfloat \<Rightarrow> pyfloat \<Rightarrow> pyfloat \<Rightarrow> pyfloat" where
  "lerp a b t =
     (let diff_b_a = fsub b a
      in if fge t (Fin (dbl (1 / 2))) then fsub b (fmul diff_b_a (fsub (Fin (dbl 1)) t))
         else fadd a (fmul diff_b_a t))"

text \<open>The index that a non-negative finite float truncates to.\<close>

fun index_of :: "pyfloat \<Rightarrow> nat" where
  "index_of (Fin a) = nat \<lfloor>val a\<rfloor>"
| "index_of x = 0"

text \<open>
  \<open>numpy.percentile(xs, p)\<close> with the default method (linear). The samples are put in
  ascending order and read at the rank \<open>(n - 1) * (p / 100)\<close>, a float: the result
  interpolates between the sample at the rank rounded down and the next one, with the
  fraction of the rank as weight. When the rank is not below \<open>n - 1\<close>, both samples are
  the last one (index \<open>-1\<close>) and the weight is the rank plus 1. A NaN among the samples
  makes the result NaN. None stands for the empty list, which the callers exclude.
\<close>

definition np_percentile :: "pyfloat list \<Rightarrow> pyfloat \<Rightarrow> pyfloat option" where
  "np_percentile xs p =
     (if xs = [] then None
      else
        let n = length xs;
            arr = sort_key sort_rank xs;
            q = fdiv p (Fin (dbl 100));
            virtual_index = fmul (float_of_nat (n - 1)) q;
            above_bounds = fge virtual_index (float_of_nat (n - 1));
            previous_index = (if above_bounds then n - 1 else index_of virtual_index);
            next_index = (if above_bounds then n - 1 else previous_index + 1);
            gamma = fsub virtual_index
                      (if above_bounds then float_of_int (- 1) else float_of_nat previous_index)
        in if NaN \<in> set xs then Some NaN
           else Some (lerp (arr ! previous_index) (arr ! next_index) gamma))"

definition avg_elapsed_ms :: "Agg \<Rightarrow> pyfloat" where
  "avg_elapsed_ms self = (if elapsed self \<noteq> [] then np_mean (elapsed self) else Fin (dbl 0))"

definition p90_elapsed_ms :: "Agg \<Rightarrow> pyfloat" where
  "p90_elapsed_ms self =
     (if elapsed self \<noteq> [] then the (np_percentile (elapsed self) (Fin (dbl 90)))
      else Fin (dbl 0))"

subsection \<open>\<open>parse_date_utc\<close>\<close>

text \<open>The text before the first separator and the text after it.\<close>

definition split_on :: "(char \<Rightarrow> bool) \<Rightarrow> string \<Rightarrow> (string \<times> string) option" where
  "split_on sep s =
     (case dropWhile (\<lambda>c. \<not> sep c) s of
        [] \<Rightarrow> None
      | _ # rest \<Rightarrow> Some (takeWhile (\<lambda>c. \<not> sep c) s, rest))"

text \<open>
  A numeric directive of \<open>strptime\<close>: one or two digits whose value lies in the
  directive's range (\<open>%m\<close>: \<open>1[0-2]|0[1-9]|[1-9]\<close>, \<open>%H\<close>: \<open>2[0-3]|[0-1]\d|\d\<close>,
  \<open>%M\<close>: \<open>[0-5]\d|\d\<close>, \<open>%S\<close>: \<open>6[0-1]|[0-5]\d|\d\<close>).
\<close>

definition directive :: "nat \<Rightarrow> nat \<Rightarrow> string \<Rightarrow> nat option" where
  "directive lo hi s =
     (if (length s = 1 \<or> length s = 2) \<and> list_all is_digit s
         \<and> lo \<le> nat_of_digits s \<and> nat_of_digits s \<le> hi
      then Some (nat_of_digits s) else None)"

text \<open>\<open>%d\<close>: \<open>3[0-1]|[1-2]\d|0[1-9]|[1-9]| [1-9]\<close>.\<close>

definition directive_d :: "string \<Rightarrow> nat option" where
  "directive_d s =
     (case s of
        [sp, c] \<Rightarrow>
          if sp = CHR '' '' \<and> is_digit c \<and> c \<noteq> CHR ''0'' then Some (digit_val c)
          else directive 1 31 s
      | _ \<Rightarrow> directive 1 31 s)"

text \<open>\<open>%Y\<close>: \<open>\d\d\d\d\<close>.\<close>

definition directive_Y :: "string \<Rightarrow> nat option" where
  "directive_Y s = (if length s = 4 \<and> list_all is_digit s then Some (nat_of_digits s) else None)"

definition is_leap :: "nat \<Rightarrow> bool" where
  "is_leap y = (y mod 4 = 0 \<and> (y mod 100 \<noteq> 0 \<or> y mod 400 = 0))"

definition days_in_month :: "nat \<Rightarrow> nat \<Rightarrow> nat" where
  "days_in_month y m =
     (if m = 2 then (if is_leap y then 29 else 28)
      else if m \<in> {4, 6, 9, 11} then 30 else 31)"

text \<open>
  The match of \<open>strptime\<close> against \<open>%Y-%m-%dT%H:%M:%SZ\<close>: the format compiled to a
  regular expression that ignores case, matched from the start, with nothing left
  over. Every directive is followed by a literal that none of its characters can be,
  so each field is the text up to that literal. Digits are the ASCII digits.
\<close>

definition strptime_match :: "string \<Rightarrow> (nat \<times> nat \<times> nat \<times> nat \<times> nat \<times> nat) option" where
  "strptime_match s = do {
     (Ys, s1) \<leftarrow> split_on (\<lambda>c. c = CHR ''-'') s;
     Y \<leftarrow> directive_Y Ys;
     (ms, s2) \<leftarrow> split_on (\<lambda>c. c = CHR ''-'') s1;
     m \<leftarrow> directive 1 12 ms;
     (ds, s3) \<leftarrow> split_on (\<lambda>c. c = CHR ''T'' \<or> c = CHR ''t'') s2;
     d \<leftarrow> directive_d ds;
     (Hs, s4) \<leftarrow> split_on (\<lambda>c. c = CHR '':'') s3;
     H \<leftarrow> directive 0 23 Hs;
     (Ms, s5) \<leftarrow> split_on (\<lambda>c. c = CHR '':'') s4;
     M \<leftarrow> directive 0 59 Ms;
     (Ss, s6) \<leftarrow> split_on (\<lambda>c. c = CHR ''Z'' \<or> c = CHR ''z'') s5;
     S \<leftarrow> directive 0 61 Ss;
     if s6 = [] then Some (Y, m, d, H, M, S) else None
   }"

text \<open>
  \<open>datetime.strptime\<close>: the matched fields must make a \<open>datetime\<close> (year from 1, a
  day of the month, seconds up to 59). Every failure is a ValueError.
\<close>

definition strptime :: "string \<Rightarrow> error + (nat \<times> nat \<times> nat \<times> nat \<times> nat \<times> nat)" where
  "strptime s =
     (case strptime_match s of
        None \<Rightarrow> Inl ValueError
      | Some (Y, m, d, H, M, S) \<Rightarrow>
          if 1 \<le> Y \<and> d \<le> days_in_month Y m \<and> S \<le> 59 then Inr (Y, m, d, H, M, S)
          else Inl ValueError)"

definition digit_char :: "nat \<Rightarrow> char" where
  "digit_char n = ''0123456789'' ! (n mod 10)"

definition pad2 :: "nat \<Rightarrow> string" where
  "pad2 n = [digit_char (n div 10), digit_char n]"

text \<open>A number in decimal, without padding.\<close>

fun decimal_str :: "nat \<Rightarrow> string" where
  "decimal_str n = (if n < 10 then [digit_char n] else decimal_str (n div 10) @ [digit_char n])"

declare decimal_str.simps [simp del]

text \<open>
  \<open>strftime("%Y-%m-%d")\<close>. Python hands the format to the C library, which on Linux
  writes the year \<open>%Y\<close> in decimal without padding (the year 999 as \<open>999\<close>) and the
  month and the day with two digits.
\<close>

definition strftime :: "nat \<times> nat \<times> nat \<times> nat \<times> nat \<times> nat \<Rightarrow> string" where
  "strftime dt =
     (case dt of (Y, m, d, H, M, S) \<Rightarrow> decimal_str Y @ ''-'' @ pad2 m @ ''-'' @ pad2 d)"

definition parse_date_utc :: "string \<Rightarrow> error + string" where
  "parse_date_utc timestamp_utc =
     (case strptime timestamp_utc of Inl e \<Rightarrow> Inl e | Inr dt \<Rightarrow> Inr (strftime dt))"

subsection \<open>\<open>normalize_endpoint\<close>\<close>

definition startswith :: "string \<Rightarrow> string \<Rightarrow> bool" where
  "startswith s p = (take (length p) s = p)"

definition normalize_endpoint :: "string \<Rightarrow> string" where
  "normalize_endpoint endpoint =
     (let base = takeWhile (\<lambda>c. c \<noteq> CHR ''?'') endpoint
      in if startswith base ''/status/'' then ''/status''
         else if startswith base ''/basic-auth/'' then ''/basic-auth''
         else base)"

subsection \<open>\<open>compute_kpis\<close>\<close>

text \<open>
  A record of the input, as \<open>dict.get\<close> reads it: None is an absent key or a JSON
  null. \<open>timestamp_utc\<close>, \<open>endpoint\<close> and \<open>parse_result\<close> are strings when present
  (\<open>str\<close> leaves a string as it is); \<open>status_code\<close> and \<open>elapsed_ms\<close> are any value.
\<close>

record raw_record =
  timestamp_utc :: "string option"
  endpoint :: "string option"
  status_code :: pyval
  elapsed_ms :: pyval
  parse_result :: "string option"

text \<open>
  The groups: a Python dict, which keeps its keys in the order of their first
  insertion.
\<close>

type_synonym group_key = "string \<times> string"
type_synonym groups = "(group_key \<times> Agg) list"

text \<open>
  The two \<open>try\<close> blocks and the resolution of \<open>parse_result\<close>: the status, the
  elapsed time and the parse result that the record hands to \<open>Agg.add\<close>.
\<close>

definition coerce :: "raw_record \<Rightarrow> int \<times> pyfloat \<times> string" where
  "coerce r =
     (let (sc, parse_result1) =
            (case py_int (status_code r) of
               Some n \<Rightarrow> (n, parse_result r)
             | None \<Rightarrow> (0, Some ''error''));
          (ems, parse_result2) =
            (case py_float (elapsed_ms r) of
               Some x \<Rightarrow> (x, parse_result1)
             | None \<Rightarrow> (Fin (dbl 0), Some ''error''));
          pr = (case parse_result2 of Some s \<Rightarrow> s | None \<Rightarrow> ''error'')
      in (sc, ems, pr))"

text \<open>\<open>groups[key]\<close> on the \<open>defaultdict\<close>: a missing key reads as a new accumulator.\<close>

definition get_agg :: "groups \<Rightarrow> group_key \<Rightarrow> Agg" where
  "get_agg groups key = (case map_of groups key of Some a \<Rightarrow> a | None \<Rightarrow> new_Agg)"

text \<open>\<open>groups[key].add(sc, ems, pr)\<close>.\<close>

definition groups_add :: "groups \<Rightarrow> group_key \<Rightarrow> int \<Rightarrow> pyfloat \<Rightarrow> string \<Rightarrow> groups" where
  "groups_add groups key sc ems pr = AList.update key (add (get_agg groups key) sc ems pr) groups"

text \<open>The body of the loop, for one record.\<close>

definition loop_body :: "groups \<Rightarrow> raw_record \<Rightarrow> error + groups" where
  "loop_body groups r =
     (case timestamp_utc r of
        None \<Rightarrow> Inr groups
      | Some ts \<Rightarrow>
     (case endpoint r of
        None \<Rightarrow> Inr groups
      | Some ep \<Rightarrow>
     (case parse_date_utc ts of
        Inl e \<Rightarrow> Inl e
      | Inr date_utc \<Rightarrow>
          let endpoint_base = normalize_endpoint ep;
              (sc, ems, pr) = coerce r
          in Inr (groups_add groups (date_utc, endpoint_base) sc ems pr))))"

fun loop :: "groups \<Rightarrow> raw_record list \<Rightarrow> error + groups" where
  "loop groups [] = Inr groups"
| "loop groups (r # rows) =
     (case loop_body groups r of Inl e \<Rightarrow> Inl e | Inr groups' \<Rightarrow> loop groups' rows)"

definition compute_kpis :: "raw_record list \<Rightarrow> error + groups" where
  "compute_kpis rows = loop [] rows"

subsection \<open>The rows of \<open>write_csv\<close>\<close>

record kpi_row =
  date_utc :: string
  endpoint_base :: string
  row_requests_total :: int
  row_success_2xx :: int
  row_client_4xx :: int
  row_server_5xx :: int
  row_parse_errors :: int
  row_avg_elapsed_ms :: pyfloat
  row_p90_elapsed_ms :: pyfloat

definition csv_row :: "group_key \<times> Agg \<Rightarrow> kpi_row" where
  "csv_row item =
     (case item of ((d, e), agg) \<Rightarrow>
        \<lparr>date_utc = d, endpoint_base = e,
         row_requests_total = requests_total agg, row_success_2xx = success_2xx agg,
         row_client_4xx = client_4xx agg, row_server_5xx = server_5xx agg,
         row_parse_errors = parse_errors agg,
         row_avg_elapsed_ms = py_round2 (avg_elapsed_ms agg),
         row_p90_elapsed_ms = py_round2 (p90_elapsed_ms agg)\<rparr>)"

definition write_csv :: "groups \<Rightarrow> kpi_row list" where
  "write_csv groups = map csv_row (sort_key fst groups)"

section \<open>The report aggregator (\<^verbatim>\<open>generar_reporte.py\<close>)\<close>

text \<open>
  A row of the endpoint table. Each group gives a \<open>Series\<close> that holds the four sums of
  counts together with the two weighted means, so pandas stores all six as floats; the
  three percentages are computed from these floats.
\<close>

record endpoint_row =
  ep_endpoint_base :: string
  ep_requests_total :: pyfloat
  ep_success_2xx :: pyfloat
  ep_client_4xx :: pyfloat
  ep_server_5xx :: pyfloat
  ep_avg_elapsed_ms :: pyfloat
  ep_p90_elapsed_ms :: pyfloat
  pct_success :: pyfloat
  pct_client_4xx :: pyfloat
  pct_server_5xx :: pyfloat

text \<open>
  \<open>Series.sum()\<close> of a float column: NaN entries count as 0, and the array is summed
  by numpy.
\<close>

definition series_sum :: "pyfloat list \<Rightarrow> pyfloat" where
  "series_sum xs = np_sum (map (\<lambda>x. if x = NaN then Fin (dbl 0) else x) xs)"

text \<open>
  \<open>Series.sum()\<close> of a column of counts, which are integers (an overflow of the 64-bit
  sum is not modelled).
\<close>

definition count_sum :: "(kpi_row \<Rightarrow> int) \<Rightarrow> kpi_row list \<Rightarrow> int" where
  "count_sum col x = sum_list (map col x)"

text \<open>\<open>(x[col] * x["requests_total"]).sum() / max(x["requests_total"].sum(), 1)\<close>.\<close>

definition weighted :: "(kpi_row \<Rightarrow> pyfloat) \<Rightarrow> kpi_row list \<Rightarrow> pyfloat" where
  "weighted col x =
     fdiv (series_sum (map (\<lambda>r. fmul (col r) (float_of_int (row_requests_total r))) x))
          (float_of_int (max (count_sum row_requests_total x) 1))"

text \<open>\<open>(g[col] / g["requests_total"] * 100.0).where(g["requests_total"] > 0, 0.0)\<close>.\<close>

definition percent :: "pyfloat \<Rightarrow> pyfloat \<Rightarrow> pyfloat" where
  "percent n requests =
     (let ratio = fmul (fdiv n requests) (Fin (dbl 100))
      in if fgt requests (Fin (dbl 0)) then ratio else Fin (dbl 0))"

text \<open>
  The row of one endpoint: the function applied to the group \<open>x\<close> of the rows of the key
  \<open>k\<close>, and the three percentage columns.
\<close>

definition group_row :: "string \<Rightarrow> kpi_row list \<Rightarrow> endpoint_row" where
  "group_row k x =
     (let requests = float_of_int (count_sum row_requests_total x);
          success = float_of_int (count_sum row_success_2xx x);
          client = float_of_int (count_sum row_client_4xx x);
          server = float_of_int (count_sum row_server_5xx x)
      in \<lparr>ep_endpoint_base = k,
          ep_requests_total = requests,
          ep_success_2xx = success,
          ep_client_4xx = client,
          ep_server_5xx = server,
          ep_avg_elapsed_ms = weighted row_avg_elapsed_ms x,
          ep_p90_elapsed_ms = weighted row_p90_elapsed_ms x,
          pct_success = percent success requests,
          pct_client_4xx = percent client requests,
          pct_server_5xx = percent server requests\<rparr>)"

text \<open>
  \<open>df.groupby("endpoint_base")\<close>: one group for each key, the keys in ascending order,
  each group holding the rows of its key in the order of the table.
\<close>

definition groupby :: "kpi_row list \<Rightarrow> (string \<times> kpi_row list) list" where
  "groupby df =
     map (\<lambda>k. (k, filter (\<lambda>r. endpoint_base r = k) df)) (sort (remdups (map endpoint_base df)))"

text \<open>The table \<open>g\<close> before it is sorted.\<close>

definition grouped :: "kpi_row list \<Rightarrow> endpoint_row list" where
  "grouped df = map (\<lambda>(k, x). group_row k x) (groupby df)"

text \<open>
  \<open>g.sort_values("requests_total", ascending=False)\<close>. No \<open>kind\<close> is passed, so the
  rows are ordered by the sort that numpy runs for \<open>quicksort\<close>, which differs between
  versions and processors and which only promises the order of the column: the result
  holds the rows of \<open>g\<close>, in descending order of \<open>requests_total\<close>. This contract is all
  that the model fixes of the sort.
\<close>

definition descending :: "endpoint_row list \<Rightarrow> bool" where
  "descending s = sorted_wrt (\<lambda>a b. fge (ep_requests_total a) (ep_requests_total b)) s"

definition sort_values :: "endpoint_row list \<Rightarrow> endpoint_row list \<Rightarrow> bool" where
  "sort_values g s = (mset s = mset g \<and> descending s)"

definition round_cols :: "endpoint_row \<Rightarrow> endpoint_row" where
  "round_cols row =
     row\<lparr>ep_avg_elapsed_ms := np_round2 (ep_avg_elapsed_ms row),
         ep_p90_elapsed_ms := np_round2 (ep_p90_elapsed_ms row),
         pct_success := np_round2 (pct_success row),
         pct_client_4xx := np_round2 (pct_client_4xx row),
         pct_server_5xx := np_round2 (pct_server_5xx row)\<rparr>"

text \<open>
  \<open>build_endpoint_table\<close>: \<open>out\<close> is a table the function can return for \<open>df\<close>, and
  \<open>s\<close> is the sorted table it passes through, before the five columns are rounded.
\<close>

definition build_endpoint_table ::
    "kpi_row list \<Rightarrow> endpoint_row list \<Rightarrow> endpoint_row list \<Rightarrow> bool" where
  "build_endpoint_table df s out = (sort_values (grouped df) s \<and> out = map round_cols s)"

text \<open>The column \<open>alerta_p90\<close> that \<open>render_html\<close> adds to the table.\<close>

definition alerta_p90 :: "pyfloat \<Rightarrow> endpoint_row list \<Rightarrow> string list" where
  "alerta_p90 umbral_p90 df_endpoints =
     map (\<lambda>row. if fgt (ep_p90_elapsed_ms row) umbral_p90 then ''SI'' else ''NO'') df_endpoints"

section \<open>Notions used to state the properties\<close>

text \<open>
  The group a record is counted in: none when the record is skipped (no
  \<open>timestamp_utc\<close> or no \<open>endpoint\<close>) or when its timestamp does not parse.
\<close>

definition record_key :: "raw_record \<Rightarrow> group_key option" where
  "record_key r =
     (case (timestamp_utc r, endpoint r) of
        (Some ts, Some ep) \<Rightarrow>
          (case parse_date_utc ts of
             Inl e \<Rightarrow> None
           | Inr d \<Rightarrow> Some (d, normalize_endpoint ep))
      | _ \<Rightarrow> None)"

text \<open>The records of the input that are counted in the group \<open>k\<close>, in input order.\<close>

definition contributing :: "raw_record list \<Rightarrow> group_key \<Rightarrow> raw_record list" where
  "contributing rows k = filter (\<lambda>r. record_key r = Some k) rows"

text \<open>The status, elapsed time and parse result a record is counted with.\<close>

definition status_of :: "raw_record \<Rightarrow> int" where
  "status_of r = (case py_int (status_code r) of Some n \<Rightarrow> n | None \<Rightarrow> 0)"

definition elapsed_of :: "raw_record \<Rightarrow> pyfloat" where
  "elapsed_of r = (case py_float (elapsed_ms r) of Some x \<Rightarrow> x | None \<Rightarrow> Fin (dbl 0))"

text \<open>
  The resolved parse result: \<open>error\<close> when a coercion failed, whatever the field held;
  otherwise the field, and \<open>error\<close> when the field is absent.
\<close>

definition resolved_parse_result :: "raw_record \<Rightarrow> string" where
  "resolved_parse_result r =
     (if py_int (status_code r) = None \<or> py_float (elapsed_ms r) = None then ''error''
      else (case parse_result r of Some s \<Rightarrow> s | None \<Rightarrow> ''error''))"

definition in_2xx :: "int \<Rightarrow> bool" where
  "in_2xx sc = (200 \<le> sc \<and> sc \<le> 299)"

definition in_4xx :: "int \<Rightarrow> bool" where
  "in_4xx sc = (400 \<le> sc \<and> sc \<le> 499)"

definition in_5xx :: "int \<Rightarrow> bool" where
  "in_5xx sc = (500 \<le> sc \<and> sc \<le> 599)"

definition outside_ranges :: "int \<Rightarrow> bool" where
  "outside_ranges sc = (\<not> in_2xx sc \<and> \<not> in_4xx sc \<and> \<not> in_5xx sc)"

text \<open>How many elements of a list satisfy a predicate.\<close>

definition count_where :: "('a \<Rightarrow> bool) \<Rightarrow> 'a list \<Rightarrow> int" where
  "count_where P xs = int (length (filter P xs))"

text \<open>One record added to an accumulator.\<close>

definition add_record :: "Agg \<Rightarrow> raw_record \<Rightarrow> Agg" where
  "add_record a r = add a (status_of r) (elapsed_of r) (resolved_parse_result r)"




text \<open>
  The descending sort that keeps rows with equal \<open>requests_total\<close> in their order
  (\<open>sort_key\<close> is an insertion sort, which is stable): one of the results that the
  contract of \<open>sort_values\<close> admits.
\<close>

fun descending_rank :: "pyfloat \<Rightarrow> nat \<times> rat" where
  "descending_rank PInf = (0, 0)"
| "descending_rank (Fin a) = (1, - val a)"
| "descending_rank NInf = (2, 0)"
| "descending_rank NaN = (3, 0)"

definition stable_descending :: "endpoint_row list \<Rightarrow> endpoint_row list" where
  "stable_descending g = sort_key (\<lambda>row. descending_rank (ep_requests_total row)) g"

text \<open>
  Rounding to the nearest integer, ties to the even one, stated as a relation: \<open>k\<close> is
  nearer to \<open>q\<close> than any other integer, or as near as its neighbour and even.
\<close>

definition nearest_integer :: "rat \<Rightarrow> int \<Rightarrow> bool" where
  "nearest_integer q k = (\<bar>q - of_int k\<bar> < 1 / 2 \<or> (\<bar>q - of_int k\<bar> = 1 / 2 \<and> even k))"

text \<open>
  \<open>y\<close> is \<open>x\<close> rounded to two decimals by \<open>Series.round(2)\<close>: \<open>y\<close> is \<open>k / 100\<close> for the
  integer \<open>k\<close> nearest to the float \<open>x * 100\<close>, and \<open>y\<close> is that product itself when it is
  an infinity or NaN.
\<close>

definition rounded_to_cents :: "pyfloat \<Rightarrow> pyfloat \<Rightarrow> bool" where
  "rounded_to_cents x y =
     (case fmul x (Fin (dbl 100)) of
        Fin c \<Rightarrow>
          (\<exists>k \<in> {\<lfloor>val c\<rfloor>, \<lceil>val c\<rceil>}.
             nearest_integer (val c) k \<and> y = fdiv (float_of_int k) (Fin (dbl 100)))
      | special \<Rightarrow> y = special)"

section \<open>Example inputs\<close>

text \<open>The record of the scenario, with the group and the accumulator it produces.\<close>

definition scenario_record :: raw_record where
  "scenario_record =
     \<lparr>timestamp_utc = Some ''2024-01-01T10:00:00Z'', endpoint = Some ''/status/403?x=1'',
      status_code = PStr ''403'', elapsed_ms = PStr ''120.5'', parse_result = Some ''ok''\<rparr>"

definition scenario_key :: group_key where
  "scenario_key = (''2024-01-01'', ''/status'')"

definition scenario_agg :: Agg where
  "scenario_agg =
     \<lparr>elapsed = [Fin (dbl (241 / 2))], requests_total = 1, success_2xx = 0, client_4xx = 1,
      server_5xx = 0, parse_errors = 0\<rparr>"

text \<open>The same record with a status that is no integer.\<close>

definition abc_record :: raw_record where
  "abc_record = scenario_record\<lparr>status_code := PStr ''abc''\<rparr>"

text \<open>The accumulator after the scenario record and the record with the bad status.\<close>

definition scenario_abc_agg :: Agg where
  "scenario_abc_agg =
     \<lparr>elapsed = [Fin (dbl (241 / 2)), Fin (dbl (241 / 2))], requests_total = 2,
      success_2xx = 0, client_4xx = 1, server_5xx = 0, parse_errors = 1\<rparr>"

text \<open>A record without \<open>timestamp_utc\<close>, and one with a timestamp that is no date.\<close>

definition no_timestamp_record :: raw_record where
  "no_timestamp_record = scenario_record\<lparr>timestamp_utc := None\<rparr>"



text \<open>A KPI table whose endpoint has the weighted p90 500.00, and its row.\<close>

definition p90_500_table :: "kpi_row list" where
  "p90_500_table =
     [\<lparr>date_utc = ''2024-01-01'', endpoint_base = ''/get'', row_requests_total = 1,
       row_success_2xx = 1, row_client_4xx = 0, row_server_5xx = 0, row_parse_errors = 0,
       row_avg_elapsed_ms = Fin (dbl 300), row_p90_elapsed_ms = Fin (dbl 200)\<rparr>,
      \<lparr>date_utc = ''2024-01-02'', endpoint_base = ''/get'', row_requests_total = 3,
       row_success_2xx = 2, row_client_4xx = 1, row_server_5xx = 0, row_parse_errors = 0,
       row_avg_elapsed_ms = Fin (dbl 200), row_p90_elapsed_ms = Fin (dbl 600)\<rparr>]"

definition p90_500_row :: endpoint_row where
  "p90_500_row =
     \<lparr>ep_endpoint_base = ''/get'', ep_requests_total = Fin (dbl 4),
      ep_success_2xx = Fin (dbl 3), ep_client_4xx = Fin (dbl 1), ep_server_5xx = Fin (dbl 0),
      ep_avg_elapsed_ms = Fin (dbl 225), ep_p90_elapsed_ms = Fin (dbl 500),
      pct_success = Fin (dbl 75), pct_client_4xx = Fin (dbl 25),
      pct_server_5xx = Fin (dbl 0)\<rparr>"

text \<open>
  A KPI table whose endpoint has the p90 values 0.57 and 0.58 on two days, one request
  each: the weighted p90 is the double nearest to 0.575, which lies below 0.575. The
  row of the table before the columns are rounded, and after.
\<close>

definition cents_table :: "kpi_row list" where
  "cents_table =
     [\<lparr>date_utc = ''2024-01-01'', endpoint_base = ''/pay'', row_requests_total = 1,
       row_success_2xx = 1, row_client_4xx = 0, row_server_5xx = 0, row_parse_errors = 0,
       row_avg_elapsed_ms = Fin (dbl (1 / 2)), row_p90_elapsed_ms = Fin (dbl (57 / 100))\<rparr>,
      \<lparr>date_utc = ''2024-01-02'', endpoint_base = ''/pay'', row_requests_total = 1,
       row_success_2xx = 1, row_client_4xx = 0, row_server_5xx = 0, row_parse_errors = 0,
       row_avg_elapsed_ms = Fin (dbl (1 / 2)), row_p90_elapsed_ms = Fin (dbl (58 / 100))\<rparr>]"

definition cents_row :: "pyfloat \<Rightarrow> endpoint_row" where
  "cents_row p90 =
     \<lparr>ep_endpoint_base = ''/pay'', ep_requests_total = Fin (dbl 2),
      ep_success_2xx = Fin (dbl 2), ep_client_4xx = Fin (dbl 0), ep_server_5xx = Fin (dbl 0),
      ep_avg_elapsed_ms = Fin (dbl (1 / 2)), ep_p90_elapsed_ms = p90,
      pct_success = Fin (dbl 100), pct_client_4xx = Fin (dbl 0),
      pct_server_5xx = Fin (dbl 0)\<rparr>"

text \<open>
  A KPI table with an endpoint whose rows all have \<open>requests_total = 0\<close>, one of them
  with an infinite average and a missing p90, and the row of that endpoint.
\<close>

definition idle_table :: "kpi_row list" where
  "idle_table =
     [\<lparr>date_utc = ''2024-01-01'', endpoint_base = ''/idle'', row_requests_total = 0,
       row_success_2xx = 2, row_client_4xx = 0, row_server_5xx = 0, row_parse_errors = 0,
       row_avg_elapsed_ms = PInf, row_p90_elapsed_ms = NaN\<rparr>,
      \<lparr>date_utc = ''2024-01-02'', endpoint_base = ''/idle'', row_requests_total = 0,
       row_success_2xx = 0, row_client_4xx = 0, row_server_5xx = 0, row_parse_errors = 0,
       row_avg_elapsed_ms = Fin (dbl 250), row_p90_elapsed_ms = Fin (dbl 400)\<rparr>]"

definition idle_row :: endpoint_row where
  "idle_row =
     \<lparr>ep_endpoint_base = ''/idle'', ep_requests_total = Fin (dbl 0),
      ep_success_2xx = Fin (dbl 2), ep_client_4xx = Fin (dbl 0), ep_server_5xx = Fin (dbl 0),
      ep_avg_elapsed_ms = Fin (dbl 0), ep_p90_elapsed_ms = Fin (dbl 0),
      pct_success = Fin (dbl 0), pct_client_4xx = Fin (dbl 0),
      pct_server_5xx = Fin (dbl 0)\<rparr>"

text \<open>Two accumulators with the samples 0.1, 0.2 and 0.3, in two orders.\<close>

definition samples_agg :: "pyfloat list \<Rightarrow> Agg" where
  "samples_agg xs =
     \<lparr>elapsed = xs, requests_total = 3, success_2xx = 3, client_4xx = 0, server_5xx = 0,
      parse_errors = 0\<rparr>"

definition tenths_up :: "pyfloat list" where
  "tenths_up = [Fin (dbl (1 / 10)), Fin (dbl (2 / 10)), Fin (dbl (3 / 10))]"

definition tenths_down :: "pyfloat list" where
  "tenths_down = [Fin (dbl (3 / 10)), Fin (dbl (2 / 10)), Fin (dbl (1 / 10))]"

section \<open>Facts about the float arithmetic\<close>

subsection \<open>Rounding\<close>

lemma pow2_pos: "0 < pow2 e"
  by (simp add: pow2_def)

lemma pow2_add1: "pow2 (e + 1) = 2 * pow2 e"
proof (cases "0 \<le> e")
  case True
  then show ?thesis by (simp add: pow2_def nat_add_distrib)
next
  case False
  then have "nat (- e) = Suc (nat (- (e + 1)))" by simp
  with False show ?thesis by (auto simp: pow2_def)
qed

lemma floorlog_2_eqI:
  assumes "2 ^ n \<le> k" and "k < 2 ^ Suc n"
  shows "floorlog 2 k = Suc n"
proof (rule antisym)
  from assms(2) show "floorlog 2 k \<le> Suc n" by (intro floorlog_leI) simp_all
  from assms(1) show "Suc n \<le> floorlog 2 k" by (intro floorlog_ge_SucI) simp_all
qed

text \<open>\<open>ilog2\<close> is the exponent: the power of two at or below the number.\<close>

lemma ilog2_eqI:
  assumes lo: "pow2 e \<le> x" and hi: "x < pow2 (e + 1)"
  shows "ilog2 x = e"
proof (cases "0 \<le> e")
  case True
  define n where "n = nat e"
  from True have e: "e = int n" by (simp add: n_def)
  from lo e have lo': "2 ^ n \<le> x" by (simp add: pow2_def)
  from hi e have hi': "x < 2 ^ Suc n" by (simp add: pow2_add1) (simp add: pow2_def)
  have "(1::rat) \<le> 2 ^ n" by simp
  with lo' have x1: "1 \<le> x" by linarith
  define k where "k = nat \<lfloor>x\<rfloor>"
  from x1 have k: "int k = \<lfloor>x\<rfloor>" by (simp add: k_def)
  from lo' have "of_int (2 ^ n) \<le> x" by simp
  then have "2 ^ n \<le> \<lfloor>x\<rfloor>" by (simp only: le_floor_iff)
  with k have "int (2 ^ n) \<le> int k" by simp
  then have k_lo: "2 ^ n \<le> k" by (simp only: of_nat_le_iff)
  from hi' have "x < of_int (2 ^ Suc n)" by simp
  then have "\<lfloor>x\<rfloor> < 2 ^ Suc n" by (simp only: floor_less_iff)
  with k have "int k < int (2 ^ Suc n)" by simp
  then have k_hi: "k < 2 ^ Suc n" by (simp only: of_nat_less_iff)
  from k_lo k_hi have "floorlog 2 k = Suc n" by (rule floorlog_2_eqI)
  with x1 e show ?thesis by (simp add: ilog2_def k_def)
next
  case False
  define j where "j = nat (- e - 1)"
  from False have e: "e = - int (Suc j)" by (simp add: j_def)
  have p: "pow2 e = 1 / 2 ^ Suc j" unfolding e by (simp add: pow2_def nat_add_distrib)
  have p1: "pow2 (e + 1) = 1 / 2 ^ j" by (simp add: pow2_add1 p)
  from lo pow2_pos [of e] have x0: "0 < x" by linarith
  have "(1::rat) / 2 ^ j \<le> 1" by simp
  with hi p1 have x1: "x < 1" by linarith
  from lo p x0 have inv_hi: "1 / x \<le> 2 ^ Suc j" by (simp add: field_simps)
  from hi [unfolded p1] x0 have inv_lo: "2 ^ j < 1 / x" by (simp add: field_simps)
  define k where "k = nat (\<lceil>1 / x\<rceil> - 1)"
  from inv_lo have "of_int (2 ^ j) < 1 / x" by simp
  then have "2 ^ j < \<lceil>1 / x\<rceil>" by (simp only: less_ceiling_iff)
  then have c_lo: "2 ^ j \<le> \<lceil>1 / x\<rceil> - 1" by simp
  have "(0::int) \<le> 2 ^ j" by simp
  with c_lo have "0 \<le> \<lceil>1 / x\<rceil> - 1" by linarith
  then have k: "int k = \<lceil>1 / x\<rceil> - 1" unfolding k_def by (rule nat_0_le)
  from inv_hi have "1 / x \<le> of_int (2 ^ Suc j)" by simp
  then have c_hi: "\<lceil>1 / x\<rceil> \<le> 2 ^ Suc j" by (simp only: ceiling_le_iff)
  from c_lo k have "int (2 ^ j) \<le> int k" by simp
  then have k_lo: "2 ^ j \<le> k" by (simp only: of_nat_le_iff)
  from c_hi k have "int k < int (2 ^ Suc j)" by simp
  then have k_hi: "k < 2 ^ Suc j" by (simp only: of_nat_less_iff)
  from k_lo k_hi have "floorlog 2 k = Suc j" by (rule floorlog_2_eqI)
  with x1 e show ?thesis by (simp add: ilog2_def k_def)
qed

text \<open>An integer is the rounding of \<open>q\<close> when it is the nearest, or the even one of two.\<close>

lemma round_half_even_eqI:
  assumes "\<bar>q - of_int k\<bar> < 1 / 2 \<or> (\<bar>q - of_int k\<bar> = 1 / 2 \<and> even k)"
  shows "round_half_even q = k"
proof -
  define f where "f = \<lfloor>q\<rfloor>"
  have f: "of_int f \<le> q" "q < of_int f + 1"
    using floor_correct [of q] by (simp_all add: f_def)
  from assms f have "k = f \<or> k = f + 1" by (auto simp: abs_if split: if_splits)
  with assms f show ?thesis
    unfolding round_half_even_def Let_def f_def [symmetric]
    by (auto simp: abs_if split: if_splits)
qed

lemma round_half_even_nearest:
  "\<bar>q - of_int (round_half_even q)\<bar> \<le> 1 / 2
   \<and> (\<bar>q - of_int (round_half_even q)\<bar> = 1 / 2 \<longrightarrow> even (round_half_even q))"
proof -
  define f where "f = \<lfloor>q\<rfloor>"
  have f: "of_int f \<le> q" "q < of_int f + 1"
    using floor_correct [of q] by (simp_all add: f_def)
  then show ?thesis
    unfolding round_half_even_def Let_def f_def [symmetric]
    by (auto simp: abs_if)
qed

lemma round_half_even_zero [simp]: "round_half_even 0 = 0"
  by (simp add: round_half_even_def)

lemma round_half_even_of_int [simp]: "round_half_even (of_int k) = k"
  by (rule round_half_even_eqI) simp

text \<open>
  The double nearest to \<open>q\<close>, from its exponent \<open>e\<close> and the integer \<open>k\<close> that counts
  its units in the last place.
\<close>

lemma round53_eqI:
  assumes "pow2 e \<le> \<bar>q\<bar>" and "\<bar>q\<bar> < pow2 (e + 1)"
    and "\<bar>q - of_int k * pow2 (max e (- 1022) - 52)\<bar> < pow2 (max e (- 1022) - 52) / 2
       \<or> (\<bar>q - of_int k * pow2 (max e (- 1022) - 52)\<bar> = pow2 (max e (- 1022) - 52) / 2
          \<and> even k)"
    and "r = of_int k * pow2 (max e (- 1022) - 52)"
  shows "round53 q = r"
proof -
  define u where "u = pow2 (max e (- 1022) - 52)"
  from assms(1) pow2_pos [of e] have q0: "q \<noteq> 0" by auto
  have u0: "0 < u" by (simp add: u_def pow2_pos)
  have l: "ilog2 \<bar>q\<bar> = e" using assms(1,2) by (rule ilog2_eqI)
  have "\<bar>q / u - of_int k\<bar> = \<bar>q - of_int k * u\<bar> / u"
    using u0 by (simp add: field_simps abs_if)
  with assms(3) u0 have "\<bar>q / u - of_int k\<bar> < 1 / 2 \<or> (\<bar>q / u - of_int k\<bar> = 1 / 2 \<and> even k)"
    unfolding u_def [symmetric] by (auto simp: field_simps)
  then have "round_half_even (q / u) = k" by (rule round_half_even_eqI)
  with q0 l show ?thesis
    by (simp add: round53_def Let_def u_def [symmetric] assms(4))
qed

lemma round53_zero: "round53 0 = 0"
  by (simp add: round53_def)

lemma round53_eq0I: "q = 0 \<Longrightarrow> round53 q = 0"
  by (simp add: round53_def)

subsection \<open>Values\<close>

lemma val_dbl: "\<bar>round53 q\<bar> < 2 ^ 1024 \<Longrightarrow> val (dbl q) = round53 q"
  by (simp add: dbl_def Abs_double_inverse)

lemma val_dbl_eqI: "round53 q = r \<Longrightarrow> \<bar>r\<bar> < 2 ^ 1024 \<Longrightarrow> val (dbl q) = r"
  using val_dbl [of q] by simp

lemma val_zero [simp]: "val (dbl 0) = 0"
  by (rule val_dbl_eqI [OF round53_zero]) simp

lemma round53_one: "round53 1 = 1"
  by (rule round53_eqI [where e = 0 and k = 4503599627370496]) (simp_all add: pow2_def)

lemma one_in_range: "\<bar>1 :: rat\<bar> < 2 ^ 1024"
proof -
  have "(1 :: rat) < 2 ^ 1024" by (rule one_less_power) simp_all
  then show ?thesis by simp
qed

lemma val_one [simp]: "val (dbl 1) = 1"
  using round53_one one_in_range by (rule val_dbl_eqI)

lemma val_hundred [simp]: "val (dbl 100) = 100"
  by (rule val_dbl_eqI [OF round53_eqI [where e = 6 and k = 7036874417766400]])
    (simp_all add: pow2_def)

lemma dbl_eqI: "round53 q = r \<Longrightarrow> round53 c = r \<Longrightarrow> dbl q = dbl c"
  by (simp add: dbl_def)

lemma float_of_rat_eqI:
  "round53 q = r \<Longrightarrow> round53 c = r \<Longrightarrow> \<bar>r\<bar> < 2 ^ 1024 \<Longrightarrow> float_of_rat q = Fin (dbl c)"
  by (auto simp: float_of_rat_def dbl_def)

lemma float_of_rat_zero [simp]: "float_of_rat 0 = Fin (dbl 0)"
  by (rule float_of_rat_eqI [OF round53_zero round53_zero]) simp

lemma float_of_rat_one [simp]: "float_of_rat 1 = Fin (dbl 1)"
  using round53_one round53_one one_in_range by (rule float_of_rat_eqI)

lemma float_of_int_eqI:
  "round53 (of_int i) = r \<Longrightarrow> round53 c = r \<Longrightarrow> \<bar>r\<bar> < 2 ^ 1024 \<Longrightarrow> float_of_int i = Fin (dbl c)"
  unfolding float_of_int_def by (rule float_of_rat_eqI)

lemma float_of_nat_eqI:
  "round53 (of_nat n) = r \<Longrightarrow> round53 c = r \<Longrightarrow> \<bar>r\<bar> < 2 ^ 1024 \<Longrightarrow> float_of_nat n = Fin (dbl c)"
  unfolding float_of_nat_def by (rule float_of_rat_eqI)

lemma float_of_int_zero [simp]: "float_of_int 0 = Fin (dbl 0)"
  by (simp add: float_of_int_def)

lemma float_of_int_one [simp]: "float_of_int 1 = Fin (dbl 1)"
  by (simp add: float_of_int_def)

lemma float_of_nat_zero [simp]: "float_of_nat 0 = Fin (dbl 0)"
  by (simp add: float_of_nat_def)

subsection \<open>Operations on finite values\<close>

lemma fadd_Fin: "fadd (Fin a) (Fin b) = float_of_rat (val a + val b)"
  by simp

lemma fsub_Fin: "fsub (Fin a) (Fin b) = float_of_rat (val a - val b)"
  by simp

lemma fmul_Fin: "fmul (Fin a) (Fin b) = float_of_rat (val a * val b)"
  by simp

lemma fdiv_Fin:
  "fdiv (Fin a) (Fin b) =
     (if val b = 0 then (if val a = 0 then NaN else signed_inf (0 < val a))
      else float_of_rat (val a / val b))"
  by simp

lemma rint_Fin: "rint (Fin a) = float_of_rat (of_int (round_half_even (val a)))"
  by simp

lemma py_round2_Fin:
  "py_round2 (Fin a) = float_of_rat (of_int (round_half_even (val a * 100)) / 100)"
  by simp

lemma index_of_Fin: "index_of (Fin a) = nat \<lfloor>val a\<rfloor>"
  by simp

lemmas Fin_ops = fadd_Fin fsub_Fin fmul_Fin fdiv_Fin rint_Fin py_round2_Fin index_of_Fin

declare Fin_ops [simp del]

lemma fadd_eqI:
  assumes "val a = x" and "val b = y"
    and "round53 (x + y) = r" and "round53 c = r" and "\<bar>r\<bar> < 2 ^ 1024"
  shows "fadd (Fin a) (Fin b) = Fin (dbl c)"
  unfolding fadd_Fin assms(1,2) using assms(3-5) by (rule float_of_rat_eqI)

lemma fsub_eqI:
  assumes "val a = x" and "val b = y"
    and "round53 (x - y) = r" and "round53 c = r" and "\<bar>r\<bar> < 2 ^ 1024"
  shows "fsub (Fin a) (Fin b) = Fin (dbl c)"
  unfolding fsub_Fin assms(1,2) using assms(3-5) by (rule float_of_rat_eqI)

lemma fmul_eqI:
  assumes "val a = x" and "val b = y"
    and "round53 (x * y) = r" and "round53 c = r" and "\<bar>r\<bar> < 2 ^ 1024"
  shows "fmul (Fin a) (Fin b) = Fin (dbl c)"
  unfolding fmul_Fin assms(1,2) using assms(3-5) by (rule float_of_rat_eqI)

lemma fdiv_eqI:
  assumes "val a = x" and "val b = y"
    and "round53 (x / y) = r" and "round53 c = r" and "\<bar>r\<bar> < 2 ^ 1024" and "y \<noteq> 0"
  shows "fdiv (Fin a) (Fin b) = Fin (dbl c)"
proof -
  from assms(2,6) have "fdiv (Fin a) (Fin b) = float_of_rat (val a / val b)"
    by (simp add: fdiv_Fin)
  also from assms(3-5) have "\<dots> = Fin (dbl c)"
    unfolding assms(1,2) by (rule float_of_rat_eqI)
  finally show ?thesis .
qed

lemma rint_eqI:
  assumes "val a = x"
    and "\<bar>x - of_int k\<bar> < 1 / 2 \<or> (\<bar>x - of_int k\<bar> = 1 / 2 \<and> even k)"
    and "round53 (of_int k) = r" and "round53 c = r" and "\<bar>r\<bar> < 2 ^ 1024"
  shows "rint (Fin a) = Fin (dbl c)"
proof -
  from assms(2) have "round_half_even x = k" by (rule round_half_even_eqI)
  then have "rint (Fin a) = float_of_rat (of_int k)"
    by (simp add: rint_Fin assms(1))
  also from assms(3-5) have "\<dots> = Fin (dbl c)" by (rule float_of_rat_eqI)
  finally show ?thesis .
qed

lemma py_round2_eqI:
  assumes "val a = x"
    and "\<bar>x * 100 - of_int k\<bar> < 1 / 2 \<or> (\<bar>x * 100 - of_int k\<bar> = 1 / 2 \<and> even k)"
    and "round53 (of_int k / 100) = r" and "round53 c = r" and "\<bar>r\<bar> < 2 ^ 1024"
  shows "py_round2 (Fin a) = Fin (dbl c)"
proof -
  from assms(2) have "round_half_even (x * 100) = k" by (rule round_half_even_eqI)
  then have "py_round2 (Fin a) = float_of_rat (of_int k / 100)"
    by (simp add: py_round2_Fin assms(1))
  also from assms(3-5) have "\<dots> = Fin (dbl c)" by (rule float_of_rat_eqI)
  finally show ?thesis .
qed

lemma index_of_eqI:
  assumes "val a = x" and "of_nat n \<le> x" and "x < of_nat n + 1"
  shows "index_of (Fin a) = n"
proof -
  have "\<lfloor>x\<rfloor> = int n"
    by (rule floor_unique) (use assms(2,3) in simp_all)
  with assms(1) show ?thesis by (simp add: index_of_Fin)
qed

subsection \<open>Zero\<close>

lemma fadd_zero [simp]: "fadd (Fin (dbl 0)) (Fin (dbl 0)) = Fin (dbl 0)"
  by (simp add: fadd_Fin)

lemma fmul_Fin_zero [simp]: "fmul (Fin a) (Fin (dbl 0)) = Fin (dbl 0)"
  by (simp add: fmul_Fin)

lemma fmul_by_zero: "fmul x (Fin (dbl 0)) = Fin (dbl 0) \<or> fmul x (Fin (dbl 0)) = NaN"
  by (cases x) (simp_all add: fmul_Fin)

lemma fdiv_zero_one [simp]: "fdiv (Fin (dbl 0)) (Fin (dbl 1)) = Fin (dbl 0)"
  by (simp add: fdiv_Fin)

lemma fgt_zero_zero [simp]: "\<not> fgt (Fin (dbl 0)) (Fin (dbl 0))"
  by simp

lemma np_round2_zero [simp]: "np_round2 (Fin (dbl 0)) = Fin (dbl 0)"
  by (simp add: np_round2_def Fin_ops)

subsection \<open>The float computations of the examples\<close>

text \<open>
  Each fact gives the value of a double or the result of one float operation, from the
  exponent of the exact result and the integer that counts its units in the last place.
\<close>

lemma float_of_rat_120_5: "float_of_rat (241 / 2) = Fin (dbl (241 / 2))"
  by (rule float_of_rat_eqI [where r = "241 / 2",
      OF round53_eqI [where e = "6" and k = "8479433673408512"] round53_eqI [where e = "6" and k = "8479433673408512"]])
    (simp_all add: pow2_def)

lemma val_120_5: "val (dbl (241 / 2)) = 241 / 2"
  by (rule val_dbl_eqI [OF round53_eqI [where e = "6" and k = "8479433673408512"]])
    (simp_all add: pow2_def)

lemma fadd_0_120_5: "fadd (Fin (dbl 0)) (Fin (dbl (241 / 2))) = Fin (dbl (241 / 2))"
  by (rule fadd_eqI [where r = "241 / 2",
      OF val_zero val_120_5 round53_eqI [where e = "6" and k = "8479433673408512"] round53_eqI [where e = "6" and k = "8479433673408512"]])
    (simp_all add: pow2_def)

lemma fdiv_120_5_1: "fdiv (Fin (dbl (241 / 2))) (Fin (dbl 1)) = Fin (dbl (241 / 2))"
  by (rule fdiv_eqI [where r = "241 / 2",
      OF val_120_5 val_one round53_eqI [where e = "6" and k = "8479433673408512"] round53_eqI [where e = "6" and k = "8479433673408512"]])
    (simp_all add: pow2_def)

lemma val_90: "val (dbl 90) = 90"
  by (rule val_dbl_eqI [OF round53_eqI [where e = "6" and k = "6333186975989760"]])
    (simp_all add: pow2_def)

lemma val_100: "val (dbl 100) = 100"
  by (rule val_dbl_eqI [OF round53_eqI [where e = "6" and k = "7036874417766400"]])
    (simp_all add: pow2_def)

lemma fdiv_90_100: "fdiv (Fin (dbl 90)) (Fin (dbl 100)) = Fin (dbl (9 / 10))"
  by (rule fdiv_eqI [where r = "8106479329266893 / 9007199254740992",
      OF val_90 val_100 round53_eqI [where e = "- 1" and k = "8106479329266893"] round53_eqI [where e = "- 1" and k = "8106479329266893"]])
    (simp_all add: pow2_def)

lemma val_0_9: "val (dbl (9 / 10)) = 8106479329266893 / 9007199254740992"
  by (rule val_dbl_eqI [OF round53_eqI [where e = "- 1" and k = "8106479329266893"]])
    (simp_all add: pow2_def)

lemma fmul_0_0_9: "fmul (Fin (dbl 0)) (Fin (dbl (9 / 10))) = Fin (dbl 0)"
  by (rule fmul_eqI [where r = "0",
      OF val_zero val_0_9 round53_eq0I round53_eq0I])
    (simp_all add: pow2_def)

lemma float_of_rat_m1: "float_of_rat (- 1) = Fin (dbl (- 1))"
  by (rule float_of_rat_eqI [where r = "- 1",
      OF round53_eqI [where e = "0" and k = "- 4503599627370496"] round53_eqI [where e = "0" and k = "- 4503599627370496"]])
    (simp_all add: pow2_def)

lemma val_m1: "val (dbl (- 1)) = - 1"
  by (rule val_dbl_eqI [OF round53_eqI [where e = "0" and k = "- 4503599627370496"]])
    (simp_all add: pow2_def)

lemma fsub_0_m1: "fsub (Fin (dbl 0)) (Fin (dbl (- 1))) = Fin (dbl 1)"
  by (rule fsub_eqI [where r = "1",
      OF val_zero val_m1 round53_eqI [where e = "0" and k = "4503599627370496"] round53_eqI [where e = "0" and k = "4503599627370496"]])
    (simp_all add: pow2_def)

lemma fsub_120_5_120_5: "fsub (Fin (dbl (241 / 2))) (Fin (dbl (241 / 2))) = Fin (dbl 0)"
  by (rule fsub_eqI [where r = "0",
      OF val_120_5 val_120_5 round53_eq0I round53_eq0I])
    (simp_all add: pow2_def)

lemma val_0_5: "val (dbl (1 / 2)) = 1 / 2"
  by (rule val_dbl_eqI [OF round53_eqI [where e = "- 1" and k = "4503599627370496"]])
    (simp_all add: pow2_def)

lemma fsub_1_1: "fsub (Fin (dbl 1)) (Fin (dbl 1)) = Fin (dbl 0)"
  by (rule fsub_eqI [where r = "0",
      OF val_one val_one round53_eq0I round53_eq0I])
    (simp_all add: pow2_def)

lemma fmul_0_0: "fmul (Fin (dbl 0)) (Fin (dbl 0)) = Fin (dbl 0)"
  by (rule fmul_eqI [where r = "0",
      OF val_zero val_zero round53_eq0I round53_eq0I])
    (simp_all add: pow2_def)

lemma fsub_120_5_0: "fsub (Fin (dbl (241 / 2))) (Fin (dbl 0)) = Fin (dbl (241 / 2))"
  by (rule fsub_eqI [where r = "241 / 2",
      OF val_120_5 val_zero round53_eqI [where e = "6" and k = "8479433673408512"] round53_eqI [where e = "6" and k = "8479433673408512"]])
    (simp_all add: pow2_def)

lemma py_round2_120_5: "py_round2 (Fin (dbl (241 / 2))) = Fin (dbl (241 / 2))"
  by (rule py_round2_eqI [where k = "12050" and r = "241 / 2",
      OF val_120_5 _ round53_eqI [where e = "6" and k = "8479433673408512"] round53_eqI [where e = "6" and k = "8479433673408512"]])
    (simp_all add: pow2_def)

lemma val_0_1: "val (dbl (1 / 10)) = 3602879701896397 / 36028797018963968"
  by (rule val_dbl_eqI [OF round53_eqI [where e = "- 4" and k = "7205759403792794"]])
    (simp_all add: pow2_def)

lemma fadd_0_0_1: "fadd (Fin (dbl 0)) (Fin (dbl (1 / 10))) = Fin (dbl (1 / 10))"
  by (rule fadd_eqI [where r = "3602879701896397 / 36028797018963968",
      OF val_zero val_0_1 round53_eqI [where e = "- 4" and k = "7205759403792794"] round53_eqI [where e = "- 4" and k = "7205759403792794"]])
    (simp_all add: pow2_def)

lemma val_0_2: "val (dbl (1 / 5)) = 3602879701896397 / 18014398509481984"
  by (rule val_dbl_eqI [OF round53_eqI [where e = "- 3" and k = "7205759403792794"]])
    (simp_all add: pow2_def)

lemma fadd_0_1_0_2:
  "fadd (Fin (dbl (1 / 10))) (Fin (dbl (1 / 5)))
     = Fin (dbl (7500000000000001 / 25000000000000000))"
  by (rule fadd_eqI [where r = "1351079888211149 / 4503599627370496",
      OF val_0_1 val_0_2 round53_eqI [where e = "- 2" and k = "5404319552844596"] round53_eqI [where e = "- 2" and k = "5404319552844596"]])
    (simp_all add: pow2_def)

lemma val_0_30000000000000004:
  "val (dbl (7500000000000001 / 25000000000000000)) = 1351079888211149 / 4503599627370496"
  by (rule val_dbl_eqI [OF round53_eqI [where e = "- 2" and k = "5404319552844596"]])
    (simp_all add: pow2_def)

lemma val_0_3: "val (dbl (3 / 10)) = 5404319552844595 / 18014398509481984"
  by (rule val_dbl_eqI [OF round53_eqI [where e = "- 2" and k = "5404319552844595"]])
    (simp_all add: pow2_def)

lemma fadd_0_30000000000000004_0_3:
  "fadd (Fin (dbl (7500000000000001 / 25000000000000000))) (Fin (dbl (3 / 10)))
     = Fin (dbl (6000000000000001 / 10000000000000000))"
  by (rule fadd_eqI [where r = "1351079888211149 / 2251799813685248",
      OF val_0_30000000000000004 val_0_3 round53_eqI [where e = "- 1" and k = "5404319552844596"] round53_eqI [where e = "- 1" and k = "5404319552844596"]])
    (simp_all add: pow2_def)

lemma val_0_6000000000000001:
  "val (dbl (6000000000000001 / 10000000000000000)) = 1351079888211149 / 2251799813685248"
  by (rule val_dbl_eqI [OF round53_eqI [where e = "- 1" and k = "5404319552844596"]])
    (simp_all add: pow2_def)

lemma fadd_0_0_6000000000000001:
  "fadd (Fin (dbl 0)) (Fin (dbl (6000000000000001 / 10000000000000000)))
     = Fin (dbl (6000000000000001 / 10000000000000000))"
  by (rule fadd_eqI [where r = "1351079888211149 / 2251799813685248",
      OF val_zero val_0_6000000000000001 round53_eqI [where e = "- 1" and k = "5404319552844596"] round53_eqI [where e = "- 1" and k = "5404319552844596"]])
    (simp_all add: pow2_def)

lemma float_of_rat_3: "float_of_rat 3 = Fin (dbl 3)"
  by (rule float_of_rat_eqI [where r = "3",
      OF round53_eqI [where e = "1" and k = "6755399441055744"] round53_eqI [where e = "1" and k = "6755399441055744"]])
    (simp_all add: pow2_def)

lemma val_3: "val (dbl 3) = 3"
  by (rule val_dbl_eqI [OF round53_eqI [where e = "1" and k = "6755399441055744"]])
    (simp_all add: pow2_def)

lemma fdiv_0_6000000000000001_3:
  "fdiv (Fin (dbl (6000000000000001 / 10000000000000000))) (Fin (dbl 3))
     = Fin (dbl (5000000000000001 / 25000000000000000))"
  by (rule fdiv_eqI [where r = "7205759403792795 / 36028797018963968",
      OF val_0_6000000000000001 val_3 round53_eqI [where e = "- 3" and k = "7205759403792795"] round53_eqI [where e = "- 3" and k = "7205759403792795"]])
    (simp_all add: pow2_def)

lemma fadd_0_0_3: "fadd (Fin (dbl 0)) (Fin (dbl (3 / 10))) = Fin (dbl (3 / 10))"
  by (rule fadd_eqI [where r = "5404319552844595 / 18014398509481984",
      OF val_zero val_0_3 round53_eqI [where e = "- 2" and k = "5404319552844595"] round53_eqI [where e = "- 2" and k = "5404319552844595"]])
    (simp_all add: pow2_def)

lemma fadd_0_3_0_2: "fadd (Fin (dbl (3 / 10))) (Fin (dbl (1 / 5))) = Fin (dbl (1 / 2))"
  by (rule fadd_eqI [where r = "1 / 2",
      OF val_0_3 val_0_2 round53_eqI [where e = "- 1" and k = "4503599627370496"] round53_eqI [where e = "- 1" and k = "4503599627370496"]])
    (simp_all add: pow2_def)

lemma fadd_0_5_0_1: "fadd (Fin (dbl (1 / 2))) (Fin (dbl (1 / 10))) = Fin (dbl (3 / 5))"
  by (rule fadd_eqI [where r = "5404319552844595 / 9007199254740992",
      OF val_0_5 val_0_1 round53_eqI [where e = "- 1" and k = "5404319552844595"] round53_eqI [where e = "- 1" and k = "5404319552844595"]])
    (simp_all add: pow2_def)

lemma val_0_6: "val (dbl (3 / 5)) = 5404319552844595 / 9007199254740992"
  by (rule val_dbl_eqI [OF round53_eqI [where e = "- 1" and k = "5404319552844595"]])
    (simp_all add: pow2_def)

lemma fadd_0_0_6: "fadd (Fin (dbl 0)) (Fin (dbl (3 / 5))) = Fin (dbl (3 / 5))"
  by (rule fadd_eqI [where r = "5404319552844595 / 9007199254740992",
      OF val_zero val_0_6 round53_eqI [where e = "- 1" and k = "5404319552844595"] round53_eqI [where e = "- 1" and k = "5404319552844595"]])
    (simp_all add: pow2_def)

lemma fdiv_0_6_3:
  "fdiv (Fin (dbl (3 / 5))) (Fin (dbl 3))
     = Fin (dbl (9999999999999999 / 50000000000000000))"
  by (rule fdiv_eqI [where r = "7205759403792793 / 36028797018963968",
      OF val_0_6 val_3 round53_eqI [where e = "- 3" and k = "7205759403792793"] round53_eqI [where e = "- 3" and k = "7205759403792793"]])
    (simp_all add: pow2_def)

lemma val_0_20000000000000004:
  "val (dbl (5000000000000001 / 25000000000000000)) = 7205759403792795 / 36028797018963968"
  by (rule val_dbl_eqI [OF round53_eqI [where e = "- 3" and k = "7205759403792795"]])
    (simp_all add: pow2_def)

lemma val_0_19999999999999998:
  "val (dbl (9999999999999999 / 50000000000000000)) = 7205759403792793 / 36028797018963968"
  by (rule val_dbl_eqI [OF round53_eqI [where e = "- 3" and k = "7205759403792793"]])
    (simp_all add: pow2_def)

lemma float_of_rat_2: "float_of_rat 2 = Fin (dbl 2)"
  by (rule float_of_rat_eqI [where r = "2",
      OF round53_eqI [where e = "1" and k = "4503599627370496"] round53_eqI [where e = "1" and k = "4503599627370496"]])
    (simp_all add: pow2_def)

lemma val_2: "val (dbl 2) = 2"
  by (rule val_dbl_eqI [OF round53_eqI [where e = "1" and k = "4503599627370496"]])
    (simp_all add: pow2_def)

lemma fmul_2_0_9: "fmul (Fin (dbl 2)) (Fin (dbl (9 / 10))) = Fin (dbl (9 / 5))"
  by (rule fmul_eqI [where r = "8106479329266893 / 4503599627370496",
      OF val_2 val_0_9 round53_eqI [where e = "0" and k = "8106479329266893"] round53_eqI [where e = "0" and k = "8106479329266893"]])
    (simp_all add: pow2_def)

lemma val_1_8: "val (dbl (9 / 5)) = 8106479329266893 / 4503599627370496"
  by (rule val_dbl_eqI [OF round53_eqI [where e = "0" and k = "8106479329266893"]])
    (simp_all add: pow2_def)

lemma index_of_1_8: "index_of (Fin (dbl (9 / 5))) = 1"
  by (rule index_of_eqI [OF val_1_8]) simp_all

lemma fsub_1_8_1: "fsub (Fin (dbl (9 / 5))) (Fin (dbl 1)) = Fin (dbl (4 / 5))"
  by (rule fsub_eqI [where r = "3602879701896397 / 4503599627370496",
      OF val_1_8 val_one round53_eqI [where e = "- 1" and k = "7205759403792794"] round53_eqI [where e = "- 1" and k = "7205759403792794"]])
    (simp_all add: pow2_def)

lemma fsub_0_3_0_2:
  "fsub (Fin (dbl (3 / 10))) (Fin (dbl (1 / 5)))
     = Fin (dbl (4999999999999999 / 50000000000000000))"
  by (rule fsub_eqI [where r = "900719925474099 / 9007199254740992",
      OF val_0_3 val_0_2 round53_eqI [where e = "- 4" and k = "7205759403792792"] round53_eqI [where e = "- 4" and k = "7205759403792792"]])
    (simp_all add: pow2_def)

lemma val_0_8: "val (dbl (4 / 5)) = 3602879701896397 / 4503599627370496"
  by (rule val_dbl_eqI [OF round53_eqI [where e = "- 1" and k = "7205759403792794"]])
    (simp_all add: pow2_def)

lemma fsub_1_0_8:
  "fsub (Fin (dbl 1)) (Fin (dbl (4 / 5)))
     = Fin (dbl (4999999999999999 / 25000000000000000))"
  by (rule fsub_eqI [where r = "900719925474099 / 4503599627370496",
      OF val_one val_0_8 round53_eqI [where e = "- 3" and k = "7205759403792792"] round53_eqI [where e = "- 3" and k = "7205759403792792"]])
    (simp_all add: pow2_def)

lemma val_0_09999999999999998:
  "val (dbl (4999999999999999 / 50000000000000000)) = 900719925474099 / 9007199254740992"
  by (rule val_dbl_eqI [OF round53_eqI [where e = "- 4" and k = "7205759403792792"]])
    (simp_all add: pow2_def)

lemma val_0_19999999999999996:
  "val (dbl (4999999999999999 / 25000000000000000)) = 900719925474099 / 4503599627370496"
  by (rule val_dbl_eqI [OF round53_eqI [where e = "- 3" and k = "7205759403792792"]])
    (simp_all add: pow2_def)

lemma fmul_0_09999999999999998_0_19999999999999996:
  "fmul (Fin (dbl (4999999999999999 / 50000000000000000))) (Fin (dbl (4999999999999999 / 25000000000000000)))
     = Fin (dbl (1999999999999999 / 100000000000000000))"
  by (rule fmul_eqI [where r = "720575940379279 / 36028797018963968",
      OF val_0_09999999999999998 val_0_19999999999999996 round53_eqI [where e = "- 6" and k = "5764607523034232"] round53_eqI [where e = "- 6" and k = "5764607523034232"]])
    (simp_all add: pow2_def)

lemma val_0_01999999999999999:
  "val (dbl (1999999999999999 / 100000000000000000)) = 720575940379279 / 36028797018963968"
  by (rule val_dbl_eqI [OF round53_eqI [where e = "- 6" and k = "5764607523034232"]])
    (simp_all add: pow2_def)

lemma fsub_0_3_0_01999999999999999:
  "fsub (Fin (dbl (3 / 10))) (Fin (dbl (1999999999999999 / 100000000000000000)))
     = Fin (dbl (7 / 25))"
  by (rule fsub_eqI [where r = "1261007895663739 / 4503599627370496",
      OF val_0_3 val_0_01999999999999999 round53_eqI [where e = "- 2" and k = "5044031582654956"] round53_eqI [where e = "- 2" and k = "5044031582654956"]])
    (simp_all add: pow2_def)

lemma float_of_rat_4: "float_of_rat 4 = Fin (dbl 4)"
  by (rule float_of_rat_eqI [where r = "4",
      OF round53_eqI [where e = "2" and k = "4503599627370496"] round53_eqI [where e = "2" and k = "4503599627370496"]])
    (simp_all add: pow2_def)

lemma val_300: "val (dbl 300) = 300"
  by (rule val_dbl_eqI [OF round53_eqI [where e = "8" and k = "5277655813324800"]])
    (simp_all add: pow2_def)

lemma fmul_300_1: "fmul (Fin (dbl 300)) (Fin (dbl 1)) = Fin (dbl 300)"
  by (rule fmul_eqI [where r = "300",
      OF val_300 val_one round53_eqI [where e = "8" and k = "5277655813324800"] round53_eqI [where e = "8" and k = "5277655813324800"]])
    (simp_all add: pow2_def)

lemma val_200: "val (dbl 200) = 200"
  by (rule val_dbl_eqI [OF round53_eqI [where e = "7" and k = "7036874417766400"]])
    (simp_all add: pow2_def)

lemma fmul_200_3: "fmul (Fin (dbl 200)) (Fin (dbl 3)) = Fin (dbl 600)"
  by (rule fmul_eqI [where r = "600",
      OF val_200 val_3 round53_eqI [where e = "9" and k = "5277655813324800"] round53_eqI [where e = "9" and k = "5277655813324800"]])
    (simp_all add: pow2_def)

lemma fadd_0_300: "fadd (Fin (dbl 0)) (Fin (dbl 300)) = Fin (dbl 300)"
  by (rule fadd_eqI [where r = "300",
      OF val_zero val_300 round53_eqI [where e = "8" and k = "5277655813324800"] round53_eqI [where e = "8" and k = "5277655813324800"]])
    (simp_all add: pow2_def)

lemma val_600: "val (dbl 600) = 600"
  by (rule val_dbl_eqI [OF round53_eqI [where e = "9" and k = "5277655813324800"]])
    (simp_all add: pow2_def)

lemma fadd_300_600: "fadd (Fin (dbl 300)) (Fin (dbl 600)) = Fin (dbl 900)"
  by (rule fadd_eqI [where r = "900",
      OF val_300 val_600 round53_eqI [where e = "9" and k = "7916483719987200"] round53_eqI [where e = "9" and k = "7916483719987200"]])
    (simp_all add: pow2_def)

lemma val_900: "val (dbl 900) = 900"
  by (rule val_dbl_eqI [OF round53_eqI [where e = "9" and k = "7916483719987200"]])
    (simp_all add: pow2_def)

lemma fadd_0_900: "fadd (Fin (dbl 0)) (Fin (dbl 900)) = Fin (dbl 900)"
  by (rule fadd_eqI [where r = "900",
      OF val_zero val_900 round53_eqI [where e = "9" and k = "7916483719987200"] round53_eqI [where e = "9" and k = "7916483719987200"]])
    (simp_all add: pow2_def)

lemma val_4: "val (dbl 4) = 4"
  by (rule val_dbl_eqI [OF round53_eqI [where e = "2" and k = "4503599627370496"]])
    (simp_all add: pow2_def)

lemma fdiv_900_4: "fdiv (Fin (dbl 900)) (Fin (dbl 4)) = Fin (dbl 225)"
  by (rule fdiv_eqI [where r = "225",
      OF val_900 val_4 round53_eqI [where e = "7" and k = "7916483719987200"] round53_eqI [where e = "7" and k = "7916483719987200"]])
    (simp_all add: pow2_def)

lemma fmul_200_1: "fmul (Fin (dbl 200)) (Fin (dbl 1)) = Fin (dbl 200)"
  by (rule fmul_eqI [where r = "200",
      OF val_200 val_one round53_eqI [where e = "7" and k = "7036874417766400"] round53_eqI [where e = "7" and k = "7036874417766400"]])
    (simp_all add: pow2_def)

lemma fmul_600_3: "fmul (Fin (dbl 600)) (Fin (dbl 3)) = Fin (dbl 1800)"
  by (rule fmul_eqI [where r = "1800",
      OF val_600 val_3 round53_eqI [where e = "10" and k = "7916483719987200"] round53_eqI [where e = "10" and k = "7916483719987200"]])
    (simp_all add: pow2_def)

lemma fadd_0_200: "fadd (Fin (dbl 0)) (Fin (dbl 200)) = Fin (dbl 200)"
  by (rule fadd_eqI [where r = "200",
      OF val_zero val_200 round53_eqI [where e = "7" and k = "7036874417766400"] round53_eqI [where e = "7" and k = "7036874417766400"]])
    (simp_all add: pow2_def)

lemma val_1800: "val (dbl 1800) = 1800"
  by (rule val_dbl_eqI [OF round53_eqI [where e = "10" and k = "7916483719987200"]])
    (simp_all add: pow2_def)

lemma fadd_200_1800: "fadd (Fin (dbl 200)) (Fin (dbl 1800)) = Fin (dbl 2000)"
  by (rule fadd_eqI [where r = "2000",
      OF val_200 val_1800 round53_eqI [where e = "10" and k = "8796093022208000"] round53_eqI [where e = "10" and k = "8796093022208000"]])
    (simp_all add: pow2_def)

lemma val_2000: "val (dbl 2000) = 2000"
  by (rule val_dbl_eqI [OF round53_eqI [where e = "10" and k = "8796093022208000"]])
    (simp_all add: pow2_def)

lemma fadd_0_2000: "fadd (Fin (dbl 0)) (Fin (dbl 2000)) = Fin (dbl 2000)"
  by (rule fadd_eqI [where r = "2000",
      OF val_zero val_2000 round53_eqI [where e = "10" and k = "8796093022208000"] round53_eqI [where e = "10" and k = "8796093022208000"]])
    (simp_all add: pow2_def)

lemma fdiv_2000_4: "fdiv (Fin (dbl 2000)) (Fin (dbl 4)) = Fin (dbl 500)"
  by (rule fdiv_eqI [where r = "500",
      OF val_2000 val_4 round53_eqI [where e = "8" and k = "8796093022208000"] round53_eqI [where e = "8" and k = "8796093022208000"]])
    (simp_all add: pow2_def)

lemma fdiv_3_4: "fdiv (Fin (dbl 3)) (Fin (dbl 4)) = Fin (dbl (3 / 4))"
  by (rule fdiv_eqI [where r = "3 / 4",
      OF val_3 val_4 round53_eqI [where e = "- 1" and k = "6755399441055744"] round53_eqI [where e = "- 1" and k = "6755399441055744"]])
    (simp_all add: pow2_def)

lemma val_0_75: "val (dbl (3 / 4)) = 3 / 4"
  by (rule val_dbl_eqI [OF round53_eqI [where e = "- 1" and k = "6755399441055744"]])
    (simp_all add: pow2_def)

lemma fmul_0_75_100: "fmul (Fin (dbl (3 / 4))) (Fin (dbl 100)) = Fin (dbl 75)"
  by (rule fmul_eqI [where r = "75",
      OF val_0_75 val_100 round53_eqI [where e = "6" and k = "5277655813324800"] round53_eqI [where e = "6" and k = "5277655813324800"]])
    (simp_all add: pow2_def)

lemma fdiv_1_4: "fdiv (Fin (dbl 1)) (Fin (dbl 4)) = Fin (dbl (1 / 4))"
  by (rule fdiv_eqI [where r = "1 / 4",
      OF val_one val_4 round53_eqI [where e = "- 2" and k = "4503599627370496"] round53_eqI [where e = "- 2" and k = "4503599627370496"]])
    (simp_all add: pow2_def)

lemma val_0_25: "val (dbl (1 / 4)) = 1 / 4"
  by (rule val_dbl_eqI [OF round53_eqI [where e = "- 2" and k = "4503599627370496"]])
    (simp_all add: pow2_def)

lemma fmul_0_25_100: "fmul (Fin (dbl (1 / 4))) (Fin (dbl 100)) = Fin (dbl 25)"
  by (rule fmul_eqI [where r = "25",
      OF val_0_25 val_100 round53_eqI [where e = "4" and k = "7036874417766400"] round53_eqI [where e = "4" and k = "7036874417766400"]])
    (simp_all add: pow2_def)

lemma fdiv_0_4: "fdiv (Fin (dbl 0)) (Fin (dbl 4)) = Fin (dbl 0)"
  by (rule fdiv_eqI [where r = "0",
      OF val_zero val_4 round53_eq0I round53_eq0I])
    (simp_all add: pow2_def)

lemma fmul_0_100: "fmul (Fin (dbl 0)) (Fin (dbl 100)) = Fin (dbl 0)"
  by (rule fmul_eqI [where r = "0",
      OF val_zero val_100 round53_eq0I round53_eq0I])
    (simp_all add: pow2_def)

lemma val_225: "val (dbl 225) = 225"
  by (rule val_dbl_eqI [OF round53_eqI [where e = "7" and k = "7916483719987200"]])
    (simp_all add: pow2_def)

lemma fmul_225_100: "fmul (Fin (dbl 225)) (Fin (dbl 100)) = Fin (dbl 22500)"
  by (rule fmul_eqI [where r = "22500",
      OF val_225 val_100 round53_eqI [where e = "14" and k = "6184752906240000"] round53_eqI [where e = "14" and k = "6184752906240000"]])
    (simp_all add: pow2_def)

lemma val_22500: "val (dbl 22500) = 22500"
  by (rule val_dbl_eqI [OF round53_eqI [where e = "14" and k = "6184752906240000"]])
    (simp_all add: pow2_def)

lemma rint_22500: "rint (Fin (dbl 22500)) = Fin (dbl 22500)"
  by (rule rint_eqI [where k = "22500" and r = "22500",
      OF val_22500 _ round53_eqI [where e = "14" and k = "6184752906240000"] round53_eqI [where e = "14" and k = "6184752906240000"]])
    (simp_all add: pow2_def)

lemma fdiv_22500_100: "fdiv (Fin (dbl 22500)) (Fin (dbl 100)) = Fin (dbl 225)"
  by (rule fdiv_eqI [where r = "225",
      OF val_22500 val_100 round53_eqI [where e = "7" and k = "7916483719987200"] round53_eqI [where e = "7" and k = "7916483719987200"]])
    (simp_all add: pow2_def)

lemma val_500: "val (dbl 500) = 500"
  by (rule val_dbl_eqI [OF round53_eqI [where e = "8" and k = "8796093022208000"]])
    (simp_all add: pow2_def)

lemma fmul_500_100: "fmul (Fin (dbl 500)) (Fin (dbl 100)) = Fin (dbl 50000)"
  by (rule fmul_eqI [where r = "50000",
      OF val_500 val_100 round53_eqI [where e = "15" and k = "6871947673600000"] round53_eqI [where e = "15" and k = "6871947673600000"]])
    (simp_all add: pow2_def)

lemma val_50000: "val (dbl 50000) = 50000"
  by (rule val_dbl_eqI [OF round53_eqI [where e = "15" and k = "6871947673600000"]])
    (simp_all add: pow2_def)

lemma rint_50000: "rint (Fin (dbl 50000)) = Fin (dbl 50000)"
  by (rule rint_eqI [where k = "50000" and r = "50000",
      OF val_50000 _ round53_eqI [where e = "15" and k = "6871947673600000"] round53_eqI [where e = "15" and k = "6871947673600000"]])
    (simp_all add: pow2_def)

lemma fdiv_50000_100: "fdiv (Fin (dbl 50000)) (Fin (dbl 100)) = Fin (dbl 500)"
  by (rule fdiv_eqI [where r = "500",
      OF val_50000 val_100 round53_eqI [where e = "8" and k = "8796093022208000"] round53_eqI [where e = "8" and k = "8796093022208000"]])
    (simp_all add: pow2_def)

lemma val_75: "val (dbl 75) = 75"
  by (rule val_dbl_eqI [OF round53_eqI [where e = "6" and k = "5277655813324800"]])
    (simp_all add: pow2_def)

lemma fmul_75_100: "fmul (Fin (dbl 75)) (Fin (dbl 100)) = Fin (dbl 7500)"
  by (rule fmul_eqI [where r = "7500",
      OF val_75 val_100 round53_eqI [where e = "12" and k = "8246337208320000"] round53_eqI [where e = "12" and k = "8246337208320000"]])
    (simp_all add: pow2_def)

lemma val_7500: "val (dbl 7500) = 7500"
  by (rule val_dbl_eqI [OF round53_eqI [where e = "12" and k = "8246337208320000"]])
    (simp_all add: pow2_def)

lemma rint_7500: "rint (Fin (dbl 7500)) = Fin (dbl 7500)"
  by (rule rint_eqI [where k = "7500" and r = "7500",
      OF val_7500 _ round53_eqI [where e = "12" and k = "8246337208320000"] round53_eqI [where e = "12" and k = "8246337208320000"]])
    (simp_all add: pow2_def)

lemma fdiv_7500_100: "fdiv (Fin (dbl 7500)) (Fin (dbl 100)) = Fin (dbl 75)"
  by (rule fdiv_eqI [where r = "75",
      OF val_7500 val_100 round53_eqI [where e = "6" and k = "5277655813324800"] round53_eqI [where e = "6" and k = "5277655813324800"]])
    (simp_all add: pow2_def)

lemma val_25: "val (dbl 25) = 25"
  by (rule val_dbl_eqI [OF round53_eqI [where e = "4" and k = "7036874417766400"]])
    (simp_all add: pow2_def)

lemma fmul_25_100: "fmul (Fin (dbl 25)) (Fin (dbl 100)) = Fin (dbl 2500)"
  by (rule fmul_eqI [where r = "2500",
      OF val_25 val_100 round53_eqI [where e = "11" and k = "5497558138880000"] round53_eqI [where e = "11" and k = "5497558138880000"]])
    (simp_all add: pow2_def)

lemma val_2500: "val (dbl 2500) = 2500"
  by (rule val_dbl_eqI [OF round53_eqI [where e = "11" and k = "5497558138880000"]])
    (simp_all add: pow2_def)

lemma rint_2500: "rint (Fin (dbl 2500)) = Fin (dbl 2500)"
  by (rule rint_eqI [where k = "2500" and r = "2500",
      OF val_2500 _ round53_eqI [where e = "11" and k = "5497558138880000"] round53_eqI [where e = "11" and k = "5497558138880000"]])
    (simp_all add: pow2_def)

lemma fdiv_2500_100: "fdiv (Fin (dbl 2500)) (Fin (dbl 100)) = Fin (dbl 25)"
  by (rule fdiv_eqI [where r = "25",
      OF val_2500 val_100 round53_eqI [where e = "4" and k = "7036874417766400"] round53_eqI [where e = "4" and k = "7036874417766400"]])
    (simp_all add: pow2_def)

lemma rint_0: "rint (Fin (dbl 0)) = Fin (dbl 0)"
  by (rule rint_eqI [where k = "0" and r = "0",
      OF val_zero _ round53_eq0I round53_eq0I])
    (simp_all add: pow2_def)

lemma fdiv_0_100: "fdiv (Fin (dbl 0)) (Fin (dbl 100)) = Fin (dbl 0)"
  by (rule fdiv_eqI [where r = "0",
      OF val_zero val_100 round53_eq0I round53_eq0I])
    (simp_all add: pow2_def)

lemma val_499_99: "val (dbl (49999 / 100)) = 2198979275086889 / 4398046511104"
  by (rule val_dbl_eqI [OF round53_eqI [where e = "8" and k = "8795917100347556"]])
    (simp_all add: pow2_def)

lemma fmul_0_5_1: "fmul (Fin (dbl (1 / 2))) (Fin (dbl 1)) = Fin (dbl (1 / 2))"
  by (rule fmul_eqI [where r = "1 / 2",
      OF val_0_5 val_one round53_eqI [where e = "- 1" and k = "4503599627370496"] round53_eqI [where e = "- 1" and k = "4503599627370496"]])
    (simp_all add: pow2_def)

lemma fadd_0_0_5: "fadd (Fin (dbl 0)) (Fin (dbl (1 / 2))) = Fin (dbl (1 / 2))"
  by (rule fadd_eqI [where r = "1 / 2",
      OF val_zero val_0_5 round53_eqI [where e = "- 1" and k = "4503599627370496"] round53_eqI [where e = "- 1" and k = "4503599627370496"]])
    (simp_all add: pow2_def)

lemma fadd_0_5_0_5: "fadd (Fin (dbl (1 / 2))) (Fin (dbl (1 / 2))) = Fin (dbl 1)"
  by (rule fadd_eqI [where r = "1",
      OF val_0_5 val_0_5 round53_eqI [where e = "0" and k = "4503599627370496"] round53_eqI [where e = "0" and k = "4503599627370496"]])
    (simp_all add: pow2_def)

lemma fadd_0_1: "fadd (Fin (dbl 0)) (Fin (dbl 1)) = Fin (dbl 1)"
  by (rule fadd_eqI [where r = "1",
      OF val_zero val_one round53_eqI [where e = "0" and k = "4503599627370496"] round53_eqI [where e = "0" and k = "4503599627370496"]])
    (simp_all add: pow2_def)

lemma fdiv_1_2: "fdiv (Fin (dbl 1)) (Fin (dbl 2)) = Fin (dbl (1 / 2))"
  by (rule fdiv_eqI [where r = "1 / 2",
      OF val_one val_2 round53_eqI [where e = "- 1" and k = "4503599627370496"] round53_eqI [where e = "- 1" and k = "4503599627370496"]])
    (simp_all add: pow2_def)

lemma val_0_57: "val (dbl (57 / 100)) = 5134103575202365 / 9007199254740992"
  by (rule val_dbl_eqI [OF round53_eqI [where e = "- 1" and k = "5134103575202365"]])
    (simp_all add: pow2_def)

lemma fmul_0_57_1: "fmul (Fin (dbl (57 / 100))) (Fin (dbl 1)) = Fin (dbl (57 / 100))"
  by (rule fmul_eqI [where r = "5134103575202365 / 9007199254740992",
      OF val_0_57 val_one round53_eqI [where e = "- 1" and k = "5134103575202365"] round53_eqI [where e = "- 1" and k = "5134103575202365"]])
    (simp_all add: pow2_def)

lemma val_0_58: "val (dbl (29 / 50)) = 5224175567749775 / 9007199254740992"
  by (rule val_dbl_eqI [OF round53_eqI [where e = "- 1" and k = "5224175567749775"]])
    (simp_all add: pow2_def)

lemma fmul_0_58_1: "fmul (Fin (dbl (29 / 50))) (Fin (dbl 1)) = Fin (dbl (29 / 50))"
  by (rule fmul_eqI [where r = "5224175567749775 / 9007199254740992",
      OF val_0_58 val_one round53_eqI [where e = "- 1" and k = "5224175567749775"] round53_eqI [where e = "- 1" and k = "5224175567749775"]])
    (simp_all add: pow2_def)

lemma fadd_0_0_57: "fadd (Fin (dbl 0)) (Fin (dbl (57 / 100))) = Fin (dbl (57 / 100))"
  by (rule fadd_eqI [where r = "5134103575202365 / 9007199254740992",
      OF val_zero val_0_57 round53_eqI [where e = "- 1" and k = "5134103575202365"] round53_eqI [where e = "- 1" and k = "5134103575202365"]])
    (simp_all add: pow2_def)

lemma fadd_0_57_0_58: "fadd (Fin (dbl (57 / 100))) (Fin (dbl (29 / 50))) = Fin (dbl (23 / 20))"
  by (rule fadd_eqI [where r = "2589569785738035 / 2251799813685248",
      OF val_0_57 val_0_58 round53_eqI [where e = "0" and k = "5179139571476070"] round53_eqI [where e = "0" and k = "5179139571476070"]])
    (simp_all add: pow2_def)

lemma val_1_15: "val (dbl (23 / 20)) = 2589569785738035 / 2251799813685248"
  by (rule val_dbl_eqI [OF round53_eqI [where e = "0" and k = "5179139571476070"]])
    (simp_all add: pow2_def)

lemma fadd_0_1_15: "fadd (Fin (dbl 0)) (Fin (dbl (23 / 20))) = Fin (dbl (23 / 20))"
  by (rule fadd_eqI [where r = "2589569785738035 / 2251799813685248",
      OF val_zero val_1_15 round53_eqI [where e = "0" and k = "5179139571476070"] round53_eqI [where e = "0" and k = "5179139571476070"]])
    (simp_all add: pow2_def)

lemma fdiv_1_15_2: "fdiv (Fin (dbl (23 / 20))) (Fin (dbl 2)) = Fin (dbl (23 / 40))"
  by (rule fdiv_eqI [where r = "2589569785738035 / 4503599627370496",
      OF val_1_15 val_2 round53_eqI [where e = "- 1" and k = "5179139571476070"] round53_eqI [where e = "- 1" and k = "5179139571476070"]])
    (simp_all add: pow2_def)

lemma fdiv_2_2: "fdiv (Fin (dbl 2)) (Fin (dbl 2)) = Fin (dbl 1)"
  by (rule fdiv_eqI [where r = "1",
      OF val_2 val_2 round53_eqI [where e = "0" and k = "4503599627370496"] round53_eqI [where e = "0" and k = "4503599627370496"]])
    (simp_all add: pow2_def)

lemma fmul_1_100: "fmul (Fin (dbl 1)) (Fin (dbl 100)) = Fin (dbl 100)"
  by (rule fmul_eqI [where r = "100",
      OF val_one val_100 round53_eqI [where e = "6" and k = "7036874417766400"] round53_eqI [where e = "6" and k = "7036874417766400"]])
    (simp_all add: pow2_def)

lemma fdiv_0_2: "fdiv (Fin (dbl 0)) (Fin (dbl 2)) = Fin (dbl 0)"
  by (rule fdiv_eqI [where r = "0",
      OF val_zero val_2 round53_eq0I round53_eq0I])
    (simp_all add: pow2_def)

lemma fmul_0_5_100: "fmul (Fin (dbl (1 / 2))) (Fin (dbl 100)) = Fin (dbl 50)"
  by (rule fmul_eqI [where r = "50",
      OF val_0_5 val_100 round53_eqI [where e = "5" and k = "7036874417766400"] round53_eqI [where e = "5" and k = "7036874417766400"]])
    (simp_all add: pow2_def)

lemma val_50: "val (dbl 50) = 50"
  by (rule val_dbl_eqI [OF round53_eqI [where e = "5" and k = "7036874417766400"]])
    (simp_all add: pow2_def)

lemma rint_50: "rint (Fin (dbl 50)) = Fin (dbl 50)"
  by (rule rint_eqI [where k = "50" and r = "50",
      OF val_50 _ round53_eqI [where e = "5" and k = "7036874417766400"] round53_eqI [where e = "5" and k = "7036874417766400"]])
    (simp_all add: pow2_def)

lemma fdiv_50_100: "fdiv (Fin (dbl 50)) (Fin (dbl 100)) = Fin (dbl (1 / 2))"
  by (rule fdiv_eqI [where r = "1 / 2",
      OF val_50 val_100 round53_eqI [where e = "- 1" and k = "4503599627370496"] round53_eqI [where e = "- 1" and k = "4503599627370496"]])
    (simp_all add: pow2_def)

lemma val_0_575: "val (dbl (23 / 40)) = 2589569785738035 / 4503599627370496"
  by (rule val_dbl_eqI [OF round53_eqI [where e = "- 1" and k = "5179139571476070"]])
    (simp_all add: pow2_def)

lemma fmul_0_575_100:
  "fmul (Fin (dbl (23 / 40))) (Fin (dbl 100))
     = Fin (dbl (5749999999999999 / 100000000000000))"
  by (rule fmul_eqI [where r = "8092405580431359 / 140737488355328",
      OF val_0_575 val_100 round53_eqI [where e = "5" and k = "8092405580431359"] round53_eqI [where e = "5" and k = "8092405580431359"]])
    (simp_all add: pow2_def)

lemma val_57_49999999999999:
  "val (dbl (5749999999999999 / 100000000000000)) = 8092405580431359 / 140737488355328"
  by (rule val_dbl_eqI [OF round53_eqI [where e = "5" and k = "8092405580431359"]])
    (simp_all add: pow2_def)

lemma rint_57_49999999999999:
  "rint (Fin (dbl (5749999999999999 / 100000000000000)))
     = Fin (dbl 57)"
  by (rule rint_eqI [where k = "57" and r = "57",
      OF val_57_49999999999999 _ round53_eqI [where e = "5" and k = "8022036836253696"] round53_eqI [where e = "5" and k = "8022036836253696"]])
    (simp_all add: pow2_def)

lemma val_57: "val (dbl 57) = 57"
  by (rule val_dbl_eqI [OF round53_eqI [where e = "5" and k = "8022036836253696"]])
    (simp_all add: pow2_def)

lemma fdiv_57_100: "fdiv (Fin (dbl 57)) (Fin (dbl 100)) = Fin (dbl (57 / 100))"
  by (rule fdiv_eqI [where r = "5134103575202365 / 9007199254740992",
      OF val_57 val_100 round53_eqI [where e = "- 1" and k = "5134103575202365"] round53_eqI [where e = "- 1" and k = "5134103575202365"]])
    (simp_all add: pow2_def)

lemma fmul_100_100: "fmul (Fin (dbl 100)) (Fin (dbl 100)) = Fin (dbl 10000)"
  by (rule fmul_eqI [where r = "10000",
      OF val_100 val_100 round53_eqI [where e = "13" and k = "5497558138880000"] round53_eqI [where e = "13" and k = "5497558138880000"]])
    (simp_all add: pow2_def)

lemma val_10000: "val (dbl 10000) = 10000"
  by (rule val_dbl_eqI [OF round53_eqI [where e = "13" and k = "5497558138880000"]])
    (simp_all add: pow2_def)

lemma rint_10000: "rint (Fin (dbl 10000)) = Fin (dbl 10000)"
  by (rule rint_eqI [where k = "10000" and r = "10000",
      OF val_10000 _ round53_eqI [where e = "13" and k = "5497558138880000"] round53_eqI [where e = "13" and k = "5497558138880000"]])
    (simp_all add: pow2_def)

lemma fdiv_10000_100: "fdiv (Fin (dbl 10000)) (Fin (dbl 100)) = Fin (dbl 100)"
  by (rule fdiv_eqI [where r = "100",
      OF val_10000 val_100 round53_eqI [where e = "6" and k = "7036874417766400"] round53_eqI [where e = "6" and k = "7036874417766400"]])
    (simp_all add: pow2_def)

lemma float_of_rat_57: "float_of_rat 57 = Fin (dbl 57)"
  by (rule float_of_rat_eqI [where r = "57",
      OF round53_eqI [where e = "5" and k = "8022036836253696"] round53_eqI [where e = "5" and k = "8022036836253696"]])
    (simp_all add: pow2_def)

lemma val_250: "val (dbl 250) = 250"
  by (rule val_dbl_eqI [OF round53_eqI [where e = "7" and k = "8796093022208000"]])
    (simp_all add: pow2_def)

lemma val_400: "val (dbl 400) = 400"
  by (rule val_dbl_eqI [OF round53_eqI [where e = "8" and k = "7036874417766400"]])
    (simp_all add: pow2_def)

lemmas float_facts = float_of_rat_120_5 val_120_5 fadd_0_120_5 fdiv_120_5_1 val_90
  val_100 fdiv_90_100 val_0_9 fmul_0_0_9 float_of_rat_m1 val_m1 fsub_0_m1
  fsub_120_5_120_5 val_0_5 fsub_1_1 fmul_0_0 fsub_120_5_0 py_round2_120_5 val_0_1
  fadd_0_0_1 val_0_2 fadd_0_1_0_2 val_0_30000000000000004 val_0_3
  fadd_0_30000000000000004_0_3 val_0_6000000000000001 fadd_0_0_6000000000000001
  float_of_rat_3 val_3 fdiv_0_6000000000000001_3 fadd_0_0_3 fadd_0_3_0_2 fadd_0_5_0_1
  val_0_6 fadd_0_0_6 fdiv_0_6_3 val_0_20000000000000004 val_0_19999999999999998
  float_of_rat_2 val_2 fmul_2_0_9 val_1_8 index_of_1_8 fsub_1_8_1 fsub_0_3_0_2 val_0_8
  fsub_1_0_8 val_0_09999999999999998 val_0_19999999999999996
  fmul_0_09999999999999998_0_19999999999999996 val_0_01999999999999999
  fsub_0_3_0_01999999999999999 float_of_rat_4 val_300 fmul_300_1 val_200 fmul_200_3
  fadd_0_300 val_600 fadd_300_600 val_900 fadd_0_900 val_4 fdiv_900_4 fmul_200_1
  fmul_600_3 fadd_0_200 val_1800 fadd_200_1800 val_2000 fadd_0_2000 fdiv_2000_4 fdiv_3_4
  val_0_75 fmul_0_75_100 fdiv_1_4 val_0_25 fmul_0_25_100 fdiv_0_4 fmul_0_100 val_225
  fmul_225_100 val_22500 rint_22500 fdiv_22500_100 val_500 fmul_500_100 val_50000
  rint_50000 fdiv_50000_100 val_75 fmul_75_100 val_7500 rint_7500 fdiv_7500_100 val_25
  fmul_25_100 val_2500 rint_2500 fdiv_2500_100 rint_0 fdiv_0_100 val_499_99 fmul_0_5_1
  fadd_0_0_5 fadd_0_5_0_5 fadd_0_1 fdiv_1_2 val_0_57 fmul_0_57_1 val_0_58 fmul_0_58_1
  fadd_0_0_57 fadd_0_57_0_58 val_1_15 fadd_0_1_15 fdiv_1_15_2 fdiv_2_2 fmul_1_100
  fdiv_0_2 fmul_0_5_100 val_50 rint_50 fdiv_50_100 val_0_575 fmul_0_575_100
  val_57_49999999999999 rint_57_49999999999999 val_57 fdiv_57_100 fmul_100_100 val_10000
  rint_10000 fdiv_10000_100 float_of_rat_57 val_250 val_400

section \<open>The loop of \<open>compute_kpis\<close>\<close>

lemma coerce_eq: "coerce r = (status_of r, elapsed_of r, resolved_parse_result r)"
  by (simp add: coerce_def status_of_def elapsed_of_def resolved_parse_result_def
      split: option.splits)

lemma loop_body_skip:
  "timestamp_utc r = None \<or> endpoint r = None \<Longrightarrow> loop_body g r = Inr g"
  by (auto simp: loop_body_def split: option.splits)


lemma loop_body_add:
  "record_key r = Some k \<Longrightarrow>
     loop_body g r = Inr (AList.update k (add_record (get_agg g k) r) g)"
  by (auto simp: record_key_def loop_body_def coerce_eq groups_add_def
      add_record_def split: option.splits sum.splits)

lemma loop_body_cases:
  assumes "loop_body g r = Inr g'"
  shows "(record_key r = None \<and> g' = g)
       \<or> (\<exists>k. record_key r = Some k \<and> g' = AList.update k (add_record (get_agg g k) r) g)"
proof (cases "record_key r")
  case None
  with assms show ?thesis
    by (auto simp: record_key_def loop_body_def split: option.splits sum.splits)
next
  case (Some k)
  with assms loop_body_add [OF Some, of g] show ?thesis by simp
qed

lemma get_agg_update:
  "get_agg (AList.update k a g) k' = (if k' = k then a else get_agg g k')"
  by (simp add: get_agg_def update_conv')

lemma loop_distinct:
  "loop g rows = Inr g' \<Longrightarrow> distinct (map fst g) \<Longrightarrow> distinct (map fst g')"
proof (induction rows arbitrary: g)
  case Nil
  then show ?case by simp
next
  case (Cons r rows)
  from Cons.prems(1) obtain g1 where b: "loop_body g r = Inr g1" and l: "loop g1 rows = Inr g'"
    by (auto split: sum.splits)
  from loop_body_cases [OF b] Cons.prems(2) have "distinct (map fst g1)"
    by (auto simp: distinct_update)
  with Cons.IH [OF l] show ?case .
qed

lemma loop_map_of:
  "loop g rows = Inr g' \<Longrightarrow>
     map_of g' k =
       (if contributing rows k = [] then map_of g k
        else Some (foldl add_record (get_agg g k) (contributing rows k)))"
proof (induction rows arbitrary: g)
  case Nil
  then show ?case by (simp add: contributing_def)
next
  case (Cons r rows)
  from Cons.prems obtain g1 where b: "loop_body g r = Inr g1" and l: "loop g1 rows = Inr g'"
    by (auto split: sum.splits)
  note IH = Cons.IH [OF l]
  from loop_body_cases [OF b] show ?case
  proof (elim disjE conjE exE)
    assume "record_key r = None" "g1 = g"
    with IH show ?thesis by (simp add: contributing_def)
  next
    fix k' assume k': "record_key r = Some k'"
      and g1: "g1 = AList.update k' (add_record (get_agg g k') r) g"
    show ?thesis
    proof (cases "k' = k")
      case True
      with IH k' g1 show ?thesis
        by (simp add: contributing_def get_agg_update update_conv')
    next
      case False
      with IH k' g1 show ?thesis
        by (simp add: contributing_def get_agg_update update_conv')
    qed
  qed
qed

lemma compute_kpis_group:
  assumes "compute_kpis rows = Inr groups" and "(k, agg) \<in> set groups"
  shows "contributing rows k \<noteq> []" and "agg = foldl add_record new_Agg (contributing rows k)"
proof -
  from assms(1) have l: "loop [] rows = Inr groups" by (simp add: compute_kpis_def)
  from loop_distinct [OF l] have "distinct (map fst groups)" by simp
  with assms(2) have m: "map_of groups k = Some agg" by simp
  from loop_map_of [OF l, of k] m
  show "contributing rows k \<noteq> []" by (auto split: if_splits)
  from loop_map_of [OF l, of k] m
  show "agg = foldl add_record new_Agg (contributing rows k)"
    by (auto simp: get_agg_def split: if_splits)
qed

subsection \<open>What a run of additions leaves in an accumulator\<close>

lemma add_requests_total [simp]: "requests_total (add a sc ems pr) = requests_total a + 1"
  by (simp add: add_def count_parse_def count_status_def)

lemma add_elapsed [simp]: "elapsed (add a sc ems pr) = elapsed a @ [ems]"
  by (simp add: add_def count_parse_def count_status_def)

lemma add_success_2xx [simp]:
  "success_2xx (add a sc ems pr) = success_2xx a + (if in_2xx sc then 1 else 0)"
  by (simp add: add_def count_parse_def count_status_def in_2xx_def)

lemma add_client_4xx [simp]:
  "client_4xx (add a sc ems pr) = client_4xx a + (if in_4xx sc then 1 else 0)"
  by (simp add: add_def count_parse_def count_status_def in_2xx_def in_4xx_def)

lemma add_server_5xx [simp]:
  "server_5xx (add a sc ems pr) = server_5xx a + (if in_5xx sc then 1 else 0)"
  by (simp add: add_def count_parse_def count_status_def in_2xx_def in_4xx_def in_5xx_def)

lemma add_parse_errors [simp]:
  "parse_errors (add a sc ems pr) = parse_errors a + (if pr \<noteq> ''ok'' then 1 else 0)"
  by (simp add: add_def count_parse_def count_status_def)

lemma fold_requests_total:
  "requests_total (foldl add_record a rs) = requests_total a + int (length rs)"
  by (induction rs arbitrary: a) (simp_all add: add_record_def)

lemma fold_elapsed:
  "elapsed (foldl add_record a rs) = elapsed a @ map elapsed_of rs"
  by (induction rs arbitrary: a) (simp_all add: add_record_def)

lemma fold_success_2xx:
  "success_2xx (foldl add_record a rs) = success_2xx a + count_where (\<lambda>r. in_2xx (status_of r)) rs"
  by (induction rs arbitrary: a) (simp_all add: add_record_def count_where_def)

lemma fold_client_4xx:
  "client_4xx (foldl add_record a rs) = client_4xx a + count_where (\<lambda>r. in_4xx (status_of r)) rs"
  by (induction rs arbitrary: a) (simp_all add: add_record_def count_where_def)

lemma fold_server_5xx:
  "server_5xx (foldl add_record a rs) = server_5xx a + count_where (\<lambda>r. in_5xx (status_of r)) rs"
  by (induction rs arbitrary: a) (simp_all add: add_record_def count_where_def)

lemma fold_parse_errors:
  "parse_errors (foldl add_record a rs) =
     parse_errors a + count_where (\<lambda>r. resolved_parse_result r \<noteq> ''ok'') rs"
  by (induction rs arbitrary: a) (simp_all add: add_record_def count_where_def)

lemma status_partition:
  "int (length rs) =
     count_where (\<lambda>r. in_2xx (status_of r)) rs + count_where (\<lambda>r. in_4xx (status_of r)) rs
     + count_where (\<lambda>r. in_5xx (status_of r)) rs
     + count_where (\<lambda>r. outside_ranges (status_of r)) rs"
  by (induction rs)
    (auto simp: count_where_def outside_ranges_def in_2xx_def in_4xx_def in_5xx_def)

lemma count_where_le: "count_where P xs \<le> int (length xs)"
  by (simp add: count_where_def)

lemma loop_append:
  "loop g (xs @ ys) = (case loop g xs of Inl e \<Rightarrow> Inl e | Inr g' \<Rightarrow> loop g' ys)"
  by (induction xs arbitrary: g) (auto split: sum.splits)


lemma loop_returns:
  assumes "\<And>r ts ep. r \<in> set rows \<Longrightarrow> timestamp_utc r = Some ts \<Longrightarrow> endpoint r = Some ep
             \<Longrightarrow> \<exists>d. parse_date_utc ts = Inr d"
  shows "\<exists>groups. loop g rows = Inr groups"
  using assms
proof (induction rows arbitrary: g)
  case Nil
  then show ?case by simp
next
  case (Cons a rows)
  have "\<exists>g'. loop_body g a = Inr g'"
  proof (cases "timestamp_utc a")
    case None
    then show ?thesis by (simp add: loop_body_skip)
  next
    case ts: (Some ts)
    show ?thesis
    proof (cases "endpoint a")
      case None
      then show ?thesis by (simp add: loop_body_skip)
    next
      case (Some ep)
      from Cons.prems [of a ts ep] ts Some obtain d where "parse_date_utc ts = Inr d" by auto
      with ts Some have "record_key a = Some (d, normalize_endpoint ep)"
        by (simp add: record_key_def)
      from loop_body_add [OF this] show ?thesis by blast
    qed
  qed
  then obtain g' where g': "loop_body g a = Inr g'" ..
  from Cons.prems have "\<exists>groups. loop g' rows = Inr groups"
    by (intro Cons.IH) auto
  with g' show ?case by simp
qed

text \<open>
  \<open>compute_kpis\<close> returns its groups as soon as every record that has both fields has a
  timestamp that parses.
\<close>

lemma compute_kpis_returns:
  assumes "\<And>r ts ep. r \<in> set rows \<Longrightarrow> timestamp_utc r = Some ts \<Longrightarrow> endpoint r = Some ep
             \<Longrightarrow> \<exists>d. parse_date_utc ts = Inr d"
  shows "\<exists>groups. compute_kpis rows = Inr groups"
  unfolding compute_kpis_def using assms by (rule loop_returns)

subsection \<open>Sums of a few elements\<close>

lemma pairwise_sum_small: "length a < 8 \<Longrightarrow> pairwise_sum a = foldl fadd (Fin (dbl 0)) a"
  by (subst pairwise_sum.simps) simp

lemma np_sum_small: "length a < 8 \<Longrightarrow> np_sum a = fadd (Fin (dbl 0)) (foldl fadd (Fin (dbl 0)) a)"
  by (simp add: np_sum_def pairwise_sum_small)

subsection \<open>The example inputs, evaluated\<close>

lemmas string_defs =
  strip_def space_to_ascii_def py_isspace_def signed_def is_digit_def nat_of_digits_def
  digit_val_def max_str_digits_def

lemmas strptime_defs =
  parse_date_utc_def strptime_def strptime_match_def split_on_def directive_def
  directive_Y_def directive_d_def days_in_month_def is_leap_def strftime_def pad2_def
  decimal_str.simps digit_char_def

lemmas float_defs =
  float_of_str_def float_body_def lower_def decimal_def mantissa_def is_e_def

lemma parse_date_scenario: "parse_date_utc ''2024-01-01T10:00:00Z'' = Inr ''2024-01-01''"
  by (simp add: strptime_defs string_defs)

lemma parse_date_not_a_date: "parse_date_utc ''not-a-date'' = Inl ValueError"
  by (simp add: strptime_defs string_defs)


text \<open>A year below 1000 is written without leading zeros.\<close>

lemma parse_date_year_999: "parse_date_utc ''0999-01-01T00:00:00Z'' = Inr ''999-01-01''"
  by (simp add: strptime_defs string_defs)

lemma normalize_scenario: "normalize_endpoint ''/status/403?x=1'' = ''/status''"
  by (simp add: normalize_endpoint_def startswith_def)

lemma int_403: "int_of_str ''403'' = Some 403"
  by (simp add: int_of_str_def string_defs)

lemma int_abc: "int_of_str ''abc'' = None"
  by (simp add: int_of_str_def string_defs)

text \<open>
  The separator U+001F is no whitespace for \<open>int()\<close>, and the no-break space U+00A0
  is.
\<close>

lemma int_unit_separator: "int_of_str (CHR 0x1F # ''500'') = None"
  by (simp add: int_of_str_def string_defs)

lemma int_no_break_space: "int_of_str (CHR 0xA0 # ''403'') = Some 403"
  by (simp add: int_of_str_def string_defs)

lemma float_120_5: "float_of_str ''120.5'' = Some (Fin (dbl (241 / 2)))"
  by (simp add: float_defs string_defs float_facts)

lemma float_abc: "float_of_str ''abc'' = None"
  by (simp add: float_defs string_defs)

lemma scenario_record_key: "record_key scenario_record = Some scenario_key"
  by (simp add: record_key_def scenario_record_def scenario_key_def parse_date_scenario
      normalize_scenario)

lemma scenario_coerce: "coerce scenario_record = (403, Fin (dbl (241 / 2)), ''ok'')"
  by (simp add: coerce_def scenario_record_def int_403 float_120_5)

lemma abc_coerce: "coerce abc_record = (0, Fin (dbl (241 / 2)), ''error'')"
  by (simp add: coerce_def abc_record_def scenario_record_def int_abc float_120_5)

lemma scenario_loop_body:
  "loop_body g scenario_record
     = Inr (AList.update scenario_key
              (add (get_agg g scenario_key) 403 (Fin (dbl (241 / 2))) ''ok'') g)"
  using loop_body_add [OF scenario_record_key, of g] scenario_coerce
  by (simp add: add_record_def coerce_eq)

lemma add_new_scenario: "add new_Agg 403 (Fin (dbl (241 / 2))) ''ok'' = scenario_agg"
  by (simp add: add_def new_Agg_def count_status_def count_parse_def scenario_agg_def)

lemma compute_kpis_scenario: "compute_kpis [scenario_record] = Inr [(scenario_key, scenario_agg)]"
  by (simp add: compute_kpis_def scenario_loop_body get_agg_def add_new_scenario)

lemma abc_record_key: "record_key abc_record = Some scenario_key"
  by (simp add: record_key_def abc_record_def scenario_record_def scenario_key_def
      parse_date_scenario normalize_scenario)

lemma add_scenario_abc: "add scenario_agg 0 (Fin (dbl (241 / 2))) ''error'' = scenario_abc_agg"
  by (simp add: add_def scenario_agg_def count_status_def count_parse_def scenario_abc_agg_def)

lemma compute_kpis_scenario_abc:
  "compute_kpis [scenario_record, abc_record] = Inr [(scenario_key, scenario_abc_agg)]"
proof -
  have "loop_body [(scenario_key, scenario_agg)] abc_record
      = Inr [(scenario_key, scenario_abc_agg)]"
    using loop_body_add [OF abc_record_key, of "[(scenario_key, scenario_agg)]"] abc_coerce
    by (simp add: add_record_def coerce_eq get_agg_def add_scenario_abc)
  then show ?thesis
    by (simp add: compute_kpis_def scenario_loop_body get_agg_def add_new_scenario)
qed

lemma contributing_scenario_abc:
  "contributing [scenario_record, abc_record] scenario_key = [scenario_record, abc_record]"
  by (simp add: contributing_def scenario_record_key abc_record_key)




lemma avg_scenario: "avg_elapsed_ms scenario_agg = Fin (dbl (241 / 2))"
  by (simp add: avg_elapsed_ms_def scenario_agg_def np_mean_def np_sum_small float_of_nat_def
      float_facts)

lemma p90_scenario: "p90_elapsed_ms scenario_agg = Fin (dbl (241 / 2))"
  by (simp add: p90_elapsed_ms_def scenario_agg_def np_percentile_def lerp_def Let_def
      float_of_nat_def float_of_int_def float_facts)

subsection \<open>The timestamps that \<open>strptime\<close> matches\<close>









section \<open>Properties of the KPI aggregator\<close>

text \<open>
  C1. For every input and every group that \<open>compute_kpis\<close> produces, \<open>requests_total\<close>
  is the number of elapsed samples stored for the group and the number of records
  counted in it, and it is \<open>success_2xx + client_4xx + server_5xx\<close> plus the number of
  those records whose status lies outside 200-299, 400-499 and 500-599.
\<close>

theorem requests_total_invariant:
  assumes "compute_kpis rows = Inr groups" and "(k, agg) \<in> set groups"
  shows "requests_total agg = int (length (elapsed agg))
       \<and> requests_total agg = int (length (contributing rows k))
       \<and> requests_total agg
           = success_2xx agg + client_4xx agg + server_5xx agg
             + count_where (\<lambda>r. outside_ranges (status_of r)) (contributing rows k)"
proof -
  let ?rs = "contributing rows k"
  from compute_kpis_group(2) [OF assms] have agg: "agg = foldl add_record new_Agg ?rs" .
  have total: "requests_total agg = int (length ?rs)"
    by (simp add: agg fold_requests_total new_Agg_def)
  have samples: "length (elapsed agg) = length ?rs"
    by (simp add: agg fold_elapsed new_Agg_def)
  have buckets: "success_2xx agg + client_4xx agg + server_5xx agg
      = count_where (\<lambda>r. in_2xx (status_of r)) ?rs + count_where (\<lambda>r. in_4xx (status_of r)) ?rs
        + count_where (\<lambda>r. in_5xx (status_of r)) ?rs"
    by (simp add: agg fold_success_2xx fold_client_4xx fold_server_5xx new_Agg_def)
  from total samples buckets status_partition [of ?rs] show ?thesis by simp
qed

theorem requests_total_invariant_witness:
  "compute_kpis [scenario_record, abc_record] = Inr [(scenario_key, scenario_abc_agg)]
   \<and> (scenario_key, scenario_abc_agg) \<in> set [(scenario_key, scenario_abc_agg)]
   \<and> requests_total scenario_abc_agg = 2
   \<and> int (length (elapsed scenario_abc_agg)) = 2
   \<and> int (length (contributing [scenario_record, abc_record] scenario_key)) = 2
   \<and> success_2xx scenario_abc_agg + client_4xx scenario_abc_agg + server_5xx scenario_abc_agg = 1
   \<and> count_where (\<lambda>r. outside_ranges (status_of r))
         (contributing [scenario_record, abc_record] scenario_key) = 1"
proof -
  have h1: "compute_kpis [scenario_record, abc_record] = Inr [(scenario_key, scenario_abc_agg)]"
    by (rule compute_kpis_scenario_abc)
  have h2: "(scenario_key, scenario_abc_agg) \<in> set [(scenario_key, scenario_abc_agg)]"
    by simp
  have v: "requests_total scenario_abc_agg = 2"
    "success_2xx scenario_abc_agg + client_4xx scenario_abc_agg + server_5xx scenario_abc_agg = 1"
    by (simp_all add: scenario_abc_agg_def)
  from requests_total_invariant [OF h1 h2] h1 h2 v show ?thesis by simp
qed

text \<open>
  C2. For every input and every group that \<open>compute_kpis\<close> produces, \<open>parse_errors\<close> is
  at most \<open>requests_total\<close>, and it is the number of records of the group whose resolved
  parse result (\<open>error\<close> after a failed coercion or for an absent field, the field
  otherwise) is not \<open>ok\<close>.
\<close>

theorem parse_errors_count:
  assumes "compute_kpis rows = Inr groups" and "(k, agg) \<in> set groups"
  shows "parse_errors agg \<le> requests_total agg
       \<and> parse_errors agg
           = count_where (\<lambda>r. resolved_parse_result r \<noteq> ''ok'') (contributing rows k)"
proof -
  let ?rs = "contributing rows k"
  from compute_kpis_group(2) [OF assms] have agg: "agg = foldl add_record new_Agg ?rs" .
  have total: "requests_total agg = int (length ?rs)"
    by (simp add: agg fold_requests_total new_Agg_def)
  have errors: "parse_errors agg = count_where (\<lambda>r. resolved_parse_result r \<noteq> ''ok'') ?rs"
    by (simp add: agg fold_parse_errors new_Agg_def)
  from total errors count_where_le [of "\<lambda>r. resolved_parse_result r \<noteq> ''ok''" ?rs]
  show ?thesis by simp
qed

theorem parse_errors_count_witness:
  "compute_kpis [scenario_record, abc_record] = Inr [(scenario_key, scenario_abc_agg)]
   \<and> (scenario_key, scenario_abc_agg) \<in> set [(scenario_key, scenario_abc_agg)]
   \<and> parse_errors scenario_abc_agg = 1
   \<and> requests_total scenario_abc_agg = 2
   \<and> parse_result scenario_record = Some ''ok'' \<and> parse_result abc_record = Some ''ok''
   \<and> resolved_parse_result scenario_record = ''ok''
   \<and> resolved_parse_result abc_record = ''error''
   \<and> count_where (\<lambda>r. resolved_parse_result r \<noteq> ''ok'')
         (contributing [scenario_record, abc_record] scenario_key) = 1"
proof -
  have h1: "compute_kpis [scenario_record, abc_record] = Inr [(scenario_key, scenario_abc_agg)]"
    by (rule compute_kpis_scenario_abc)
  have h2: "(scenario_key, scenario_abc_agg) \<in> set [(scenario_key, scenario_abc_agg)]"
    by simp
  have v: "parse_errors scenario_abc_agg = 1" "requests_total scenario_abc_agg = 2"
    by (simp_all add: scenario_abc_agg_def)
  have f: "parse_result scenario_record = Some ''ok''" "parse_result abc_record = Some ''ok''"
    by (simp_all add: abc_record_def scenario_record_def)
  have r: "resolved_parse_result scenario_record = ''ok''"
    "resolved_parse_result abc_record = ''error''"
    using scenario_coerce abc_coerce by (simp_all add: coerce_eq)
  from parse_errors_count [OF h1 h2] h1 h2 v f r show ?thesis by simp
qed

text \<open>
  C3. A record that reaches the coercions and whose \<open>status_code\<close> fails \<open>int()\<close>, or
  whose \<open>elapsed_ms\<close> fails \<open>float()\<close>, is counted with the status 0, respectively the
  elapsed time 0.0, and with the parse result \<open>error\<close> whatever the field held. Coming
  after the records \<open>rows\<close>, it adds 1 to \<open>requests_total\<close> of its group, its elapsed
  value to the samples, 1 to \<open>parse_errors\<close>, and nothing to the three status buckets
  when the status is 0.
\<close>

theorem coercion_failure_counted:
  assumes "compute_kpis rows = Inr groups"
    and "timestamp_utc r = Some ts" and "endpoint r = Some ep"
    and "parse_date_utc ts = Inr d"
    and "py_int (status_code r) = None \<or> py_float (elapsed_ms r) = None"
    and "coerce r = (sc, ems, pr)"
    and "key = (d, normalize_endpoint ep)"
    and "old = get_agg groups key"
    and "new = add old sc ems pr"
  shows "(py_int (status_code r) = None \<longrightarrow> sc = 0)
       \<and> (py_float (elapsed_ms r) = None \<longrightarrow> ems = Fin (dbl 0))
       \<and> pr = ''error''
       \<and> compute_kpis (rows @ [r]) = Inr (AList.update key new groups)
       \<and> requests_total new = requests_total old + 1
       \<and> elapsed new = elapsed old @ [ems]
       \<and> parse_errors new = parse_errors old + 1
       \<and> (sc = 0 \<longrightarrow> success_2xx new = success_2xx old \<and> client_4xx new = client_4xx old
                     \<and> server_5xx new = server_5xx old)"
proof -
  from assms(5,6) have sc: "py_int (status_code r) = None \<longrightarrow> sc = 0"
    and ems: "py_float (elapsed_ms r) = None \<longrightarrow> ems = Fin (dbl 0)"
    and pr: "pr = ''error''"
    by (auto simp: coerce_def split: option.splits)
  from assms(2-4,6-9) have "loop_body groups r = Inr (AList.update key new groups)"
    by (simp add: loop_body_def groups_add_def Let_def)
  with assms(1) have run: "compute_kpis (rows @ [r]) = Inr (AList.update key new groups)"
    by (simp add: compute_kpis_def loop_append)
  have buckets: "sc = 0 \<longrightarrow> success_2xx new = success_2xx old \<and> client_4xx new = client_4xx old
      \<and> server_5xx new = server_5xx old"
    by (simp add: assms(9) in_2xx_def in_4xx_def in_5xx_def)
  from sc ems pr run buckets show ?thesis
    by (simp add: assms(9))
qed

theorem coercion_failure_counted_witness:
  "compute_kpis [scenario_record] = Inr [(scenario_key, scenario_agg)]
   \<and> timestamp_utc abc_record = Some ''2024-01-01T10:00:00Z''
   \<and> endpoint abc_record = Some ''/status/403?x=1''
   \<and> parse_date_utc ''2024-01-01T10:00:00Z'' = Inr ''2024-01-01''
   \<and> py_int (status_code abc_record) = None
   \<and> parse_result abc_record = Some ''ok''
   \<and> coerce abc_record = (0, Fin (dbl (241 / 2)), ''error'')
   \<and> compute_kpis ([scenario_record] @ [abc_record])
       = Inr [((''2024-01-01'', ''/status''),
               \<lparr>elapsed = [Fin (dbl (241 / 2)), Fin (dbl (241 / 2))], requests_total = 2,
                success_2xx = 0, client_4xx = 1, server_5xx = 0, parse_errors = 1\<rparr>)]"
proof -
  have h0: "compute_kpis [scenario_record] = Inr [(scenario_key, scenario_agg)]"
    by (rule compute_kpis_scenario)
  have h1: "timestamp_utc abc_record = Some ''2024-01-01T10:00:00Z''"
    and h2: "endpoint abc_record = Some ''/status/403?x=1''"
    and ok: "parse_result abc_record = Some ''ok''"
    by (simp_all add: abc_record_def scenario_record_def)
  have h3: "parse_date_utc ''2024-01-01T10:00:00Z'' = Inr ''2024-01-01''"
    by (rule parse_date_scenario)
  have h4: "py_int (status_code abc_record) = None"
    by (simp add: abc_record_def int_abc)
  then have h4': "py_int (status_code abc_record) = None \<or> py_float (elapsed_ms abc_record) = None"
    by simp
  have h5: "coerce abc_record = (0, Fin (dbl (241 / 2)), ''error'')"
    by (rule abc_coerce)
  have key: "(''2024-01-01'', normalize_endpoint ''/status/403?x=1'') = scenario_key"
    by (simp add: normalize_scenario scenario_key_def)
  have new: "add (get_agg [(scenario_key, scenario_agg)] scenario_key) 0 (Fin (dbl (241 / 2)))
        ''error''
      = \<lparr>elapsed = [Fin (dbl (241 / 2)), Fin (dbl (241 / 2))], requests_total = 2,
         success_2xx = 0, client_4xx = 1, server_5xx = 0, parse_errors = 1\<rparr>"
    by (simp add: get_agg_def scenario_agg_def add_def count_status_def count_parse_def)
  from coercion_failure_counted [OF h0 h1 h2 h3 h4' h5 refl refl refl]
  have "compute_kpis ([scenario_record] @ [abc_record])
      = Inr (AList.update (''2024-01-01'', normalize_endpoint ''/status/403?x=1'')
          (add (get_agg [(scenario_key, scenario_agg)]
                  (''2024-01-01'', normalize_endpoint ''/status/403?x=1''))
             0 (Fin (dbl (241 / 2))) ''error'')
          [(scenario_key, scenario_agg)])"
    by blast
  then have "compute_kpis ([scenario_record] @ [abc_record])
      = Inr [((''2024-01-01'', ''/status''),
               \<lparr>elapsed = [Fin (dbl (241 / 2)), Fin (dbl (241 / 2))], requests_total = 2,
                success_2xx = 0, client_4xx = 1, server_5xx = 0, parse_errors = 1\<rparr>)]"
    unfolding key new by (simp add: scenario_key_def)
  with h0 h1 h2 h3 h4 ok h5 show ?thesis by blast
qed

text \<open>
  C4. A record without \<open>timestamp_utc\<close> or without \<open>endpoint\<close> changes nothing: the
  result of \<open>compute_kpis\<close>, groups or error, is that of the input without the record.
\<close>

theorem missing_field_record_dropped:
  assumes "timestamp_utc r = None \<or> endpoint r = None"
  shows "compute_kpis (xs @ r # ys) = compute_kpis (xs @ ys)"
proof -
  have step: "loop g (r # ys) = loop g ys" for g
    using loop_body_skip [OF assms, of g] by simp
  have "loop [] (xs @ r # ys) = loop [] (xs @ ys)"
    by (cases "loop [] xs") (simp_all add: loop_append step del: loop.simps)
  then show ?thesis
    by (simp add: compute_kpis_def)
qed

theorem missing_field_record_dropped_witness:
  "timestamp_utc no_timestamp_record = None
   \<and> compute_kpis ([] @ no_timestamp_record # [scenario_record])
       = compute_kpis ([] @ [scenario_record])
   \<and> compute_kpis ([] @ no_timestamp_record # [scenario_record])
       = Inr [(scenario_key, scenario_agg)]"
proof -
  have h: "timestamp_utc no_timestamp_record = None"
    by (simp add: no_timestamp_record_def)
  then have "timestamp_utc no_timestamp_record = None \<or> endpoint no_timestamp_record = None"
    by simp
  from missing_field_record_dropped [OF this, of "[]" "[scenario_record]"] h
    compute_kpis_scenario
  show ?thesis by simp
qed




text \<open>
  C6. The scenario record alone gives one group, \<open>("2024-01-01", "/status")\<close>, with
  \<open>requests_total = 1\<close>, \<open>server_5xx = 0\<close>, \<open>client_4xx = 1\<close>, \<open>parse_errors = 0\<close>,
  and both \<open>avg_elapsed_ms\<close> and \<open>p90_elapsed_ms\<close> equal to 120.5, in the accumulator
  and in the row written for it.
\<close>

theorem scenario_status_403:
  "compute_kpis
     [\<lparr>timestamp_utc = Some ''2024-01-01T10:00:00Z'', endpoint = Some ''/status/403?x=1'',
       status_code = PStr ''403'', elapsed_ms = PStr ''120.5'', parse_result = Some ''ok''\<rparr>]
     = Inr [((''2024-01-01'', ''/status''),
             \<lparr>elapsed = [Fin (dbl (241 / 2))], requests_total = 1, success_2xx = 0,
              client_4xx = 1, server_5xx = 0, parse_errors = 0\<rparr>)]
   \<and> avg_elapsed_ms
       \<lparr>elapsed = [Fin (dbl (241 / 2))], requests_total = 1, success_2xx = 0,
        client_4xx = 1, server_5xx = 0, parse_errors = 0\<rparr> = Fin (dbl (241 / 2))
   \<and> p90_elapsed_ms
       \<lparr>elapsed = [Fin (dbl (241 / 2))], requests_total = 1, success_2xx = 0,
        client_4xx = 1, server_5xx = 0, parse_errors = 0\<rparr> = Fin (dbl (241 / 2))
   \<and> write_csv
       [((''2024-01-01'', ''/status''),
         \<lparr>elapsed = [Fin (dbl (241 / 2))], requests_total = 1, success_2xx = 0,
          client_4xx = 1, server_5xx = 0, parse_errors = 0\<rparr>)]
     = [\<lparr>date_utc = ''2024-01-01'', endpoint_base = ''/status'', row_requests_total = 1,
         row_success_2xx = 0, row_client_4xx = 1, row_server_5xx = 0, row_parse_errors = 0,
         row_avg_elapsed_ms = Fin (dbl (241 / 2)), row_p90_elapsed_ms = Fin (dbl (241 / 2))\<rparr>]"
proof -
  have row: "write_csv [(scenario_key, scenario_agg)]
      = [\<lparr>date_utc = ''2024-01-01'', endpoint_base = ''/status'', row_requests_total = 1,
          row_success_2xx = 0, row_client_4xx = 1, row_server_5xx = 0, row_parse_errors = 0,
          row_avg_elapsed_ms = Fin (dbl (241 / 2)), row_p90_elapsed_ms = Fin (dbl (241 / 2))\<rparr>]"
    by (simp add: write_csv_def csv_row_def scenario_key_def avg_scenario p90_scenario
        py_round2_120_5)
      (simp add: scenario_agg_def)
  from compute_kpis_scenario avg_scenario p90_scenario row show ?thesis
    by (simp add: scenario_record_def scenario_key_def scenario_agg_def)
qed

section \<open>The endpoint table\<close>

subsection \<open>Sums of zeros\<close>

lemma foldl_fadd_zeros:
  "\<forall>x \<in> set xs. x = Fin (dbl 0) \<Longrightarrow> foldl fadd (Fin (dbl 0)) xs = Fin (dbl 0)"
  by (induction xs) simp_all

lemma all_zero_replicate:
  "\<forall>x \<in> set xs. x = c \<Longrightarrow> xs = replicate (length xs) c"
  by (induction xs) simp_all

lemma running_sums_zeros:
  "\<forall>x \<in> set a. x = Fin (dbl 0)
     \<Longrightarrow> running_sums (replicate 8 (Fin (dbl 0))) a = replicate 8 (Fin (dbl 0))"
proof (induction "replicate 8 (Fin (dbl 0))" a rule: running_sums.induct)
  case (1 a)
  show ?case
  proof (cases "length a < 8")
    case True
    then show ?thesis by (subst running_sums.simps) simp
  next
    case False
    from 1(2) have "\<forall>x \<in> set (take 8 a). x = Fin (dbl 0)"
      by (auto dest: in_set_takeD)
    from all_zero_replicate [OF this] False
    have t: "take 8 a = replicate 8 (Fin (dbl 0))" by simp
    have m: "map2 fadd (replicate 8 (Fin (dbl 0))) (take 8 a) = replicate 8 (Fin (dbl 0))"
      unfolding t by (simp add: numeral_eq_Suc)
    from 1(2) have d: "\<forall>x \<in> set (drop 8 a). x = Fin (dbl 0)"
      by (auto dest: in_set_dropD)
    from 1(1) [OF False m d] False m show ?thesis
      by (subst running_sums.simps) simp
  qed
qed

lemma pairwise_sum_zeros:
  "\<forall>x \<in> set a. x = Fin (dbl 0) \<Longrightarrow> pairwise_sum a = Fin (dbl 0)"
proof (induction a rule: pairwise_sum.induct)
  case (1 a)
  consider "length a < 8" | "8 \<le> length a" "length a \<le> 128" | "128 < length a"
    by linarith
  then show ?case
  proof cases
    case 1
    with "1.prems" show ?thesis
      by (subst pairwise_sum.simps) (simp add: foldl_fadd_zeros)
  next
    case 2
    from "1.prems" have "\<forall>x \<in> set (take 8 a). x = Fin (dbl 0)"
      by (auto dest: in_set_takeD)
    from all_zero_replicate [OF this] 2(1)
    have t: "take 8 a = replicate 8 (Fin (dbl 0))" by simp
    from "1.prems" have d: "\<forall>x \<in> set (drop 8 a). x = Fin (dbl 0)"
      by (auto dest: in_set_dropD)
    have r: "running_sums (take 8 a) (drop 8 a) = replicate 8 (Fin (dbl 0))"
      unfolding t using d by (rule running_sums_zeros)
    from "1.prems" have "\<forall>x \<in> set (drop (length a - length a mod 8) a). x = Fin (dbl 0)"
      by (auto dest: in_set_dropD)
    then have "foldl fadd (Fin (dbl 0)) (drop (length a - length a mod 8) a) = Fin (dbl 0)"
      by (rule foldl_fadd_zeros)
    with 2 r show ?thesis
      by (subst pairwise_sum.simps) (simp add: Let_def)
  next
    case 3
    define n2 where "n2 = length a div 2 - (length a div 2) mod 8"
    from "1.prems" have "\<forall>x \<in> set (take n2 a). x = Fin (dbl 0)"
      and "\<forall>x \<in> set (drop n2 a). x = Fin (dbl 0)"
      by (auto dest: in_set_takeD in_set_dropD)
    with "1.IH" [OF refl _ _ n2_def] 3
    have "pairwise_sum (take n2 a) = Fin (dbl 0)" and "pairwise_sum (drop n2 a) = Fin (dbl 0)"
      by simp_all
    with 3 show ?thesis
      by (subst pairwise_sum.simps) (simp add: Let_def n2_def [symmetric])
  qed
qed

lemma series_sum_zeros:
  assumes "\<forall>x \<in> set xs. x = Fin (dbl 0) \<or> x = NaN"
  shows "series_sum xs = Fin (dbl 0)"
proof -
  from assms have "\<forall>x \<in> set (map (\<lambda>x. if x = NaN then Fin (dbl 0) else x) xs). x = Fin (dbl 0)"
    by auto
  from pairwise_sum_zeros [OF this] show ?thesis
    by (simp add: series_sum_def np_sum_def)
qed

lemma count_sum_zeros: "\<forall>r \<in> set x. col r = 0 \<Longrightarrow> count_sum col x = 0"
  unfolding count_sum_def by (induction x) simp_all

subsection \<open>The row of an endpoint without requests\<close>

lemma weighted_zero:
  assumes "\<forall>r \<in> set x. row_requests_total r = 0"
  shows "weighted col x = Fin (dbl 0)"
proof -
  from assms
  have "\<forall>v \<in> set (map (\<lambda>r. fmul (col r) (float_of_int (row_requests_total r))) x).
      v = Fin (dbl 0) \<or> v = NaN"
    using fmul_by_zero by auto
  then have "series_sum (map (\<lambda>r. fmul (col r) (float_of_int (row_requests_total r))) x)
      = Fin (dbl 0)"
    by (rule series_sum_zeros)
  with count_sum_zeros [of x row_requests_total, OF assms] show ?thesis
    by (simp add: weighted_def)
qed

lemma percent_zero: "percent n (Fin (dbl 0)) = Fin (dbl 0)"
  by (simp add: percent_def)

lemma group_row_zero:
  assumes "\<forall>r \<in> set x. row_requests_total r = 0"
  shows "ep_requests_total (group_row k x) = Fin (dbl 0)"
    and "ep_avg_elapsed_ms (group_row k x) = Fin (dbl 0)"
    and "ep_p90_elapsed_ms (group_row k x) = Fin (dbl 0)"
    and "pct_success (group_row k x) = Fin (dbl 0)"
    and "pct_client_4xx (group_row k x) = Fin (dbl 0)"
    and "pct_server_5xx (group_row k x) = Fin (dbl 0)"
  using count_sum_zeros [of x row_requests_total, OF assms] weighted_zero [OF assms]
  by (simp_all add: group_row_def percent_zero Let_def)

subsection \<open>The grouped, sorted and rounded table\<close>

lemma group_row_key [simp]: "ep_endpoint_base (group_row k x) = k"
  by (simp add: group_row_def Let_def)

lemma round_cols_fields [simp]:
  "ep_endpoint_base (round_cols row) = ep_endpoint_base row"
  "ep_requests_total (round_cols row) = ep_requests_total row"
  "ep_avg_elapsed_ms (round_cols row) = np_round2 (ep_avg_elapsed_ms row)"
  "ep_p90_elapsed_ms (round_cols row) = np_round2 (ep_p90_elapsed_ms row)"
  "pct_success (round_cols row) = np_round2 (pct_success row)"
  "pct_client_4xx (round_cols row) = np_round2 (pct_client_4xx row)"
  "pct_server_5xx (round_cols row) = np_round2 (pct_server_5xx row)"
  by (simp_all add: round_cols_def)

lemma grouped_eq:
  "grouped df =
     map (\<lambda>k. group_row k (filter (\<lambda>r. endpoint_base r = k) df))
       (sort (remdups (map endpoint_base df)))"
  by (simp add: grouped_def groupby_def comp_def)

lemma set_grouped:
  "set (grouped df) =
     (\<lambda>k. group_row k (filter (\<lambda>r. endpoint_base r = k) df)) ` endpoint_base ` set df"
  by (simp add: grouped_eq)

lemma build_endpoint_tableD:
  assumes "build_endpoint_table df s out"
  shows "out = map round_cols s" and "mset s = mset (grouped df)" and "descending s"
  using assms by (simp_all add: build_endpoint_table_def sort_values_def)

text \<open>The count columns hold no NaN, so the rows can be put in descending order.\<close>

lemma float_of_rat_not_NaN: "float_of_rat q \<noteq> NaN"
  by (simp add: float_of_rat_def)

lemma grouped_requests_not_NaN: "row \<in> set (grouped df) \<Longrightarrow> ep_requests_total row \<noteq> NaN"
  by (auto simp: set_grouped group_row_def Let_def float_of_int_def float_of_rat_not_NaN)

lemma descending_rank_fge:
  "a \<noteq> NaN \<Longrightarrow> b \<noteq> NaN \<Longrightarrow> descending_rank a \<le> descending_rank b \<Longrightarrow> fge a b"
  by (cases a; cases b) simp_all

lemma descending_stable:
  assumes "\<forall>row \<in> set g. ep_requests_total row \<noteq> NaN"
  shows "descending (stable_descending g)"
proof -
  let ?key = "\<lambda>row. descending_rank (ep_requests_total row)"
  have "sorted (map ?key (stable_descending g))"
    unfolding stable_descending_def by (rule sorted_sort_key)
  then have "sorted_wrt (\<lambda>a b. ?key a \<le> ?key b) (stable_descending g)"
    by (simp add: sorted_map)
  then show ?thesis
    unfolding descending_def
  proof (rule sorted_wrt_mono_rel [rotated])
    fix a b assume "a \<in> set (stable_descending g)" and "b \<in> set (stable_descending g)"
      and "?key a \<le> ?key b"
    with assms show "fge (ep_requests_total a) (ep_requests_total b)"
      by (intro descending_rank_fge) (simp_all add: stable_descending_def)
  qed
qed

lemma build_endpoint_table_stable:
  "build_endpoint_table df (stable_descending (grouped df))
     (map round_cols (stable_descending (grouped df)))"
proof -
  have "mset (stable_descending (grouped df)) = mset (grouped df)"
    by (simp add: stable_descending_def)
  moreover have "descending (stable_descending (grouped df))"
    by (rule descending_stable) (simp add: grouped_requests_not_NaN)
  ultimately show ?thesis
    by (simp add: build_endpoint_table_def sort_values_def)
qed

subsection \<open>Rounding to two decimals\<close>

lemma round_half_even_floor_ceiling: "round_half_even q \<in> {\<lfloor>q\<rfloor>, \<lceil>q\<rceil>}"
proof (cases "q - of_int \<lfloor>q\<rfloor> < 1 / 2")
  case True
  then show ?thesis by (simp add: round_half_even_def)
next
  case False
  then have "of_int \<lfloor>q\<rfloor> < q" by simp
  then have "\<lceil>q\<rceil> = \<lfloor>q\<rfloor> + 1"
    by (intro ceiling_unique) (use floor_correct [of q] in simp_all)
  then show ?thesis by (simp add: round_half_even_def Let_def)
qed

text \<open>What \<open>Series.round(2)\<close> computes is the value rounded to two decimals.\<close>

lemma np_round2_rounded: "rounded_to_cents x (np_round2 x)"
proof (cases "fmul x (Fin (dbl 100))")
  case (Fin c)
  let ?k = "round_half_even (val c)"
  have n: "nearest_integer (val c) ?k"
    using round_half_even_nearest [of "val c"] by (auto simp: nearest_integer_def)
  have r: "np_round2 x = fdiv (float_of_int ?k) (Fin (dbl 100))"
    by (simp add: np_round2_def Fin rint_Fin float_of_int_def)
  have "\<exists>k \<in> {\<lfloor>val c\<rfloor>, \<lceil>val c\<rceil>}.
      nearest_integer (val c) k \<and> np_round2 x = fdiv (float_of_int k) (Fin (dbl 100))"
    using round_half_even_floor_ceiling [of "val c"] n r by (intro bexI [where x = ?k]) auto
  then show ?thesis
    by (simp add: rounded_to_cents_def Fin)
qed (simp_all add: rounded_to_cents_def np_round2_def signed_inf_def)

subsection \<open>The example tables, evaluated\<close>

lemmas table_defs =
  grouped_eq group_row_def count_sum_def weighted_def series_sum_def np_sum_small percent_def
  float_of_int_def Let_def

lemmas np_round2_defs = round_cols_def np_round2_def

lemma grouped_p90_500_table: "grouped p90_500_table = [p90_500_row]"
  by (simp add: table_defs p90_500_table_def p90_500_row_def float_facts)

lemma round_cols_p90_500_row: "round_cols p90_500_row = p90_500_row"
  by (simp add: np_round2_defs p90_500_row_def float_facts)

lemma build_p90_500_table:
  "build_endpoint_table p90_500_table [p90_500_row] [p90_500_row]"
  by (simp add: build_endpoint_table_def sort_values_def descending_def grouped_p90_500_table
      round_cols_p90_500_row)

lemma grouped_cents_table: "grouped cents_table = [cents_row (Fin (dbl (23 / 40)))]"
  by (simp add: table_defs cents_table_def cents_row_def float_facts)

lemma round_cols_cents_row:
  "round_cols (cents_row (Fin (dbl (23 / 40)))) = cents_row (Fin (dbl (57 / 100)))"
  by (simp add: np_round2_defs cents_row_def float_facts)

lemma build_cents_table:
  "build_endpoint_table cents_table [cents_row (Fin (dbl (23 / 40)))]
     [cents_row (Fin (dbl (57 / 100)))]"
  by (simp add: build_endpoint_table_def sort_values_def descending_def grouped_cents_table
      round_cols_cents_row)

lemma grouped_idle_table: "grouped idle_table = [idle_row]"
  by (simp add: table_defs idle_table_def idle_row_def float_facts)

lemma round_cols_idle_row: "round_cols idle_row = idle_row"
  by (simp add: round_cols_def idle_row_def)

lemma build_idle_table: "build_endpoint_table idle_table [idle_row] [idle_row]"
  by (simp add: build_endpoint_table_def sort_values_def descending_def grouped_idle_table
      round_cols_idle_row)

section \<open>The statistics of the sample list\<close>

subsection \<open>The percentile under permutation\<close>

lemma inj_sort_rank: "inj sort_rank"
proof (rule injI)
  fix x y assume "sort_rank x = sort_rank y"
  then show "x = y" by (cases x; cases y) (simp_all add: val_inject)
qed

lemma map_sort_key: "map f (sort_key f xs) = sort (map f xs)"
  by (rule properties_for_sort [symmetric]) simp_all

lemma sort_key_sort_rank_mset:
  assumes "mset xs = mset ys"
  shows "sort_key sort_rank xs = sort_key sort_rank ys"
proof -
  from assms have "mset (map sort_rank xs) = mset (map sort_rank ys)" by simp
  then have "sort (map sort_rank xs) = sort (map sort_rank ys)"
    by (metis mset_sort properties_for_sort sorted_sort)
  then have "map sort_rank (sort_key sort_rank xs) = map sort_rank (sort_key sort_rank ys)"
    by (simp add: map_sort_key)
  from this inj_sort_rank show ?thesis by (rule map_injective)
qed

lemma np_percentile_mset:
  assumes "mset xs = mset ys"
  shows "np_percentile xs p = np_percentile ys p"
proof -
  from assms have "length xs = length ys" and "set xs = set ys" and "xs = [] \<longleftrightarrow> ys = []"
    by (auto dest: mset_eq_length mset_eq_setD)
  with sort_key_sort_rank_mset [OF assms] show ?thesis
    by (simp add: np_percentile_def)
qed

subsection \<open>The samples 0.1, 0.2 and 0.3\<close>

lemmas mean_defs = avg_elapsed_ms_def samples_agg_def np_mean_def np_sum_small float_of_nat_def

lemmas percentile_defs =
  p90_elapsed_ms_def samples_agg_def np_percentile_def lerp_def Let_def float_of_nat_def
  float_of_int_def

lemma avg_tenths_up:
  "avg_elapsed_ms (samples_agg tenths_up)
     = Fin (dbl (20000000000000004 / 100000000000000000))"
  by (simp add: mean_defs tenths_up_def float_facts)

lemma avg_tenths_down:
  "avg_elapsed_ms (samples_agg tenths_down)
     = Fin (dbl (19999999999999998 / 100000000000000000))"
  by (simp add: mean_defs tenths_down_def float_facts)

lemma p90_tenths_up: "p90_elapsed_ms (samples_agg tenths_up) = Fin (dbl (28 / 100))"
  by (simp add: percentile_defs tenths_up_def float_facts)

lemma p90_tenths_down: "p90_elapsed_ms (samples_agg tenths_down) = Fin (dbl (28 / 100))"
  by (simp add: percentile_defs tenths_down_def float_facts)

lemma tenths_means_differ:
  "Fin (dbl (20000000000000004 / 100000000000000000))
     \<noteq> Fin (dbl (19999999999999998 / 100000000000000000))"
proof
  assume "Fin (dbl (20000000000000004 / 100000000000000000))
      = Fin (dbl (19999999999999998 / 100000000000000000))"
  then have "val (dbl (20000000000000004 / 100000000000000000))
      = val (dbl (19999999999999998 / 100000000000000000))"
    by simp
  then show False
    by (simp add: float_facts)
qed

section \<open>Properties of the statistics and of the report\<close>

text \<open>
  C9, as the code has it. For two accumulators with the same samples in any order,
  \<open>p90_elapsed_ms\<close> is the same.
\<close>

theorem percentile_order_independent:
  assumes "mset (elapsed a) = mset (elapsed b)"
  shows "p90_elapsed_ms a = p90_elapsed_ms b"
proof -
  from assms have "elapsed a = [] \<longleftrightarrow> elapsed b = []"
    by (auto dest: mset_eq_length)
  with np_percentile_mset [OF assms] show ?thesis
    by (simp add: p90_elapsed_ms_def)
qed

theorem percentile_order_independent_witness:
  "mset (elapsed (samples_agg tenths_up)) = mset (elapsed (samples_agg tenths_down))
   \<and> elapsed (samples_agg tenths_up) \<noteq> elapsed (samples_agg tenths_down)
   \<and> p90_elapsed_ms (samples_agg tenths_up) = Fin (dbl (28 / 100))
   \<and> p90_elapsed_ms (samples_agg tenths_down) = Fin (dbl (28 / 100))"
proof -
  have h: "mset (elapsed (samples_agg tenths_up)) = mset (elapsed (samples_agg tenths_down))"
    by (simp add: samples_agg_def tenths_up_def tenths_down_def)
  have "val (dbl (1 / 10)) \<noteq> val (dbl (3 / 10))"
    by (simp add: float_facts)
  then have ne: "elapsed (samples_agg tenths_up) \<noteq> elapsed (samples_agg tenths_down)"
    by (auto simp: samples_agg_def tenths_up_def tenths_down_def)
  from percentile_order_independent [OF h] p90_tenths_up h ne show ?thesis
    by simp
qed

text \<open>
  C9, as stated, fails for the mean: the samples 0.1, 0.2, 0.3 have the mean
  0.20000000000000004, and the same samples in the order 0.3, 0.2, 0.1 have the mean
  0.19999999999999998, because each addition rounds its result to a double.
\<close>

theorem mean_depends_on_order:
  "mset (elapsed (samples_agg tenths_up)) = mset (elapsed (samples_agg tenths_down))
   \<and> avg_elapsed_ms (samples_agg tenths_up)
       = Fin (dbl (20000000000000004 / 100000000000000000))
   \<and> avg_elapsed_ms (samples_agg tenths_down)
       = Fin (dbl (19999999999999998 / 100000000000000000))
   \<and> avg_elapsed_ms (samples_agg tenths_up) \<noteq> avg_elapsed_ms (samples_agg tenths_down)"
proof -
  have "mset (elapsed (samples_agg tenths_up)) = mset (elapsed (samples_agg tenths_down))"
    by (simp add: samples_agg_def tenths_up_def tenths_down_def)
  with avg_tenths_up avg_tenths_down tenths_means_differ show ?thesis
    by simp
qed

text \<open>
  C7. In the table that \<open>build_endpoint_table\<close> gives, the p90 of a row is the weighted
  p90 of its endpoint rounded to two decimals (the nearest multiple of 0.01 of the
  float product by 100, ties to the even one), and the flag \<open>alerta_p90\<close> of the row is
  \<open>SI\<close> exactly when that value is greater than the threshold, \<open>NO\<close> otherwise. A row
  with the p90 500.00 is flagged for the threshold 499.99 and not for 500.00.
\<close>

theorem alert_iff_p90_exceeds_threshold:
  assumes "build_endpoint_table df s out" and "i < length out"
  shows "rounded_to_cents
           (weighted row_p90_elapsed_ms
              (filter (\<lambda>r. endpoint_base r = ep_endpoint_base (out ! i)) df))
           (ep_p90_elapsed_ms (out ! i))
       \<and> (alerta_p90 umbral_p90 out ! i = ''SI'')
           = fgt (ep_p90_elapsed_ms (out ! i)) umbral_p90
       \<and> (alerta_p90 umbral_p90 out ! i = ''NO'')
           = (\<not> fgt (ep_p90_elapsed_ms (out ! i)) umbral_p90)
       \<and> (ep_p90_elapsed_ms (out ! i) = Fin (dbl 500) \<longrightarrow>
            alerta_p90 (Fin (dbl (49999 / 100))) out ! i = ''SI''
            \<and> alerta_p90 (Fin (dbl 500)) out ! i = ''NO'')"
proof -
  from assms(1) have out: "out = map round_cols s"
    and s: "mset s = mset (grouped df)"
    by (rule build_endpoint_tableD)+
  from assms(2) out have "s ! i \<in> set s" by simp
  with s have "s ! i \<in> set (grouped df)" by (metis mset_eq_setD)
  then obtain k where k: "s ! i = group_row k (filter (\<lambda>r. endpoint_base r = k) df)"
    by (auto simp: set_grouped)
  from assms(2) out have row: "out ! i = round_cols (s ! i)" by simp
  have "ep_p90_elapsed_ms (out ! i)
      = np_round2 (weighted row_p90_elapsed_ms
          (filter (\<lambda>r. endpoint_base r = ep_endpoint_base (out ! i)) df))"
    by (simp add: row k) (simp add: group_row_def Let_def)
  then have rounded: "rounded_to_cents
      (weighted row_p90_elapsed_ms
         (filter (\<lambda>r. endpoint_base r = ep_endpoint_base (out ! i)) df))
      (ep_p90_elapsed_ms (out ! i))"
    by (simp add: np_round2_rounded)
  have "val (dbl (49999 / 100)) < val (dbl 500)"
    by (simp add: float_facts)
  then have strict: "fgt (Fin (dbl 500)) (Fin (dbl (49999 / 100)))"
    and "\<not> fgt (Fin (dbl 500)) (Fin (dbl 500))"
    by simp_all
  with rounded assms(2) show ?thesis
    by (simp add: alerta_p90_def)
qed

theorem alert_iff_p90_exceeds_threshold_witness:
  "build_endpoint_table p90_500_table [p90_500_row] [p90_500_row]
   \<and> build_endpoint_table cents_table [cents_row (Fin (dbl (575 / 1000)))]
        [cents_row (Fin (dbl (57 / 100)))]
   \<and> (0::nat) < length [p90_500_row]
   \<and> weighted row_p90_elapsed_ms p90_500_table = Fin (dbl 500)
   \<and> ep_p90_elapsed_ms ([p90_500_row] ! 0) = Fin (dbl 500)
   \<and> alerta_p90 (Fin (dbl (49999 / 100))) [p90_500_row] ! 0 = ''SI''
   \<and> alerta_p90 (Fin (dbl 500)) [p90_500_row] ! 0 = ''NO''
   \<and> weighted row_p90_elapsed_ms cents_table = Fin (dbl (575 / 1000))
   \<and> fmul (Fin (dbl (575 / 1000))) (Fin (dbl 100))
       = Fin (dbl (5749999999999999 / 100000000000000))
   \<and> rounded_to_cents (Fin (dbl (575 / 1000))) (Fin (dbl (57 / 100)))
   \<and> ep_p90_elapsed_ms ([cents_row (Fin (dbl (57 / 100)))] ! 0) = Fin (dbl (57 / 100))
   \<and> alerta_p90 (Fin (dbl (57 / 100))) [cents_row (Fin (dbl (57 / 100)))] ! 0 = ''NO''"
proof -
  have h1: "build_endpoint_table p90_500_table [p90_500_row] [p90_500_row]"
    by (rule build_p90_500_table)
  have h2: "(0::nat) < length [p90_500_row]"
    by simp
  have p: "ep_p90_elapsed_ms ([p90_500_row] ! 0) = Fin (dbl 500)"
    by (simp add: p90_500_row_def)
  have w: "weighted row_p90_elapsed_ms p90_500_table = Fin (dbl 500)"
    by (simp add: p90_500_table_def weighted_def series_sum_def np_sum_small count_sum_def
        float_of_int_def float_facts)
  from alert_iff_p90_exceeds_threshold [OF h1 h2] p
  have si: "alerta_p90 (Fin (dbl (49999 / 100))) [p90_500_row] ! 0 = ''SI''"
    and no: "alerta_p90 (Fin (dbl 500)) [p90_500_row] ! 0 = ''NO''"
    by simp_all
  have c1: "build_endpoint_table cents_table [cents_row (Fin (dbl (575 / 1000)))]
      [cents_row (Fin (dbl (57 / 100)))]"
    using build_cents_table by simp
  have c2: "(0::nat) < length [cents_row (Fin (dbl (57 / 100)))]"
    by simp
  have cw: "weighted row_p90_elapsed_ms cents_table = Fin (dbl (575 / 1000))"
    by (simp add: cents_table_def weighted_def series_sum_def np_sum_small count_sum_def
        float_of_int_def float_facts)
  have cm: "fmul (Fin (dbl (575 / 1000))) (Fin (dbl 100))
      = Fin (dbl (5749999999999999 / 100000000000000))"
    by (simp add: float_facts)
  have cp: "ep_p90_elapsed_ms ([cents_row (Fin (dbl (57 / 100)))] ! 0) = Fin (dbl (57 / 100))"
    by (simp add: cents_row_def)
  have key: "filter (\<lambda>r. endpoint_base r
        = ep_endpoint_base ([cents_row (Fin (dbl (57 / 100)))] ! 0)) cents_table = cents_table"
    by (simp add: cents_row_def cents_table_def)
  from alert_iff_p90_exceeds_threshold [OF c1 c2, of "Fin (dbl (57 / 100))"] cp
  have cr: "rounded_to_cents (Fin (dbl (575 / 1000))) (Fin (dbl (57 / 100)))"
    and cn: "alerta_p90 (Fin (dbl (57 / 100))) [cents_row (Fin (dbl (57 / 100)))] ! 0 = ''NO''"
    unfolding key cw by simp_all
  from h1 c1 h2 w p si no cw cm cr cp cn show ?thesis by blast
qed

text \<open>
  C8. When all the rows of an endpoint have \<open>requests_total = 0\<close>,
  \<open>build_endpoint_table\<close> gives a table, and in every table it gives the endpoint has a
  row, whose weighted average, weighted p90 and three percentages are 0.
\<close>

theorem zero_requests_endpoint:
  assumes "k \<in> endpoint_base ` set df"
    and "\<forall>r \<in> set df. endpoint_base r = k \<longrightarrow> row_requests_total r = 0"
  shows "(\<exists>s out. build_endpoint_table df s out)
       \<and> (\<forall>s out. build_endpoint_table df s out \<longrightarrow>
            (\<exists>row \<in> set out. ep_endpoint_base row = k)
          \<and> (\<forall>row \<in> set out. ep_endpoint_base row = k \<longrightarrow>
                ep_requests_total row = Fin (dbl 0)
              \<and> ep_avg_elapsed_ms row = Fin (dbl 0) \<and> ep_p90_elapsed_ms row = Fin (dbl 0)
              \<and> pct_success row = Fin (dbl 0) \<and> pct_client_4xx row = Fin (dbl 0)
              \<and> pct_server_5xx row = Fin (dbl 0)))"
proof (intro conjI allI impI)
  show "\<exists>s out. build_endpoint_table df s out"
    using build_endpoint_table_stable by blast
next
  fix s out assume "build_endpoint_table df s out"
  then have out: "out = map round_cols s" and s: "mset s = mset (grouped df)"
    by (rule build_endpoint_tableD)+
  from s have set_s: "set s = set (grouped df)" by (rule mset_eq_setD)
  let ?x = "filter (\<lambda>r. endpoint_base r = k) df"
  from assms(2) have zero: "\<forall>r \<in> set ?x. row_requests_total r = 0" by simp
  from assms(1) have "group_row k ?x \<in> set s"
    by (auto simp: set_s set_grouped)
  then have "round_cols (group_row k ?x) \<in> set out"
    by (simp add: out)
  then show "\<exists>row \<in> set out. ep_endpoint_base row = k"
    by (rule bexI [rotated]) simp
  show "\<forall>row \<in> set out. ep_endpoint_base row = k \<longrightarrow>
      ep_requests_total row = Fin (dbl 0)
      \<and> ep_avg_elapsed_ms row = Fin (dbl 0) \<and> ep_p90_elapsed_ms row = Fin (dbl 0)
      \<and> pct_success row = Fin (dbl 0) \<and> pct_client_4xx row = Fin (dbl 0)
      \<and> pct_server_5xx row = Fin (dbl 0)"
  proof (intro ballI impI)
    fix row assume "row \<in> set out" and key: "ep_endpoint_base row = k"
    then obtain g where g: "g \<in> set (grouped df)" and row: "row = round_cols g"
      by (auto simp: out set_s)
    from g obtain k' where "g = group_row k' (filter (\<lambda>r. endpoint_base r = k') df)"
      by (auto simp: set_grouped)
    with key row have "g = group_row k ?x" by simp
    with group_row_zero [OF zero, of k] row
    show "ep_requests_total row = Fin (dbl 0)
      \<and> ep_avg_elapsed_ms row = Fin (dbl 0) \<and> ep_p90_elapsed_ms row = Fin (dbl 0)
      \<and> pct_success row = Fin (dbl 0) \<and> pct_client_4xx row = Fin (dbl 0)
      \<and> pct_server_5xx row = Fin (dbl 0)"
      by simp
  qed
qed

theorem zero_requests_endpoint_witness:
  "''/idle'' \<in> endpoint_base ` set idle_table
   \<and> map row_requests_total idle_table = [0, 0]
   \<and> build_endpoint_table idle_table [idle_row] [idle_row]
   \<and> ep_endpoint_base idle_row = ''/idle''
   \<and> ep_avg_elapsed_ms idle_row = Fin (dbl 0) \<and> ep_p90_elapsed_ms idle_row = Fin (dbl 0)
   \<and> pct_success idle_row = Fin (dbl 0) \<and> pct_client_4xx idle_row = Fin (dbl 0)
   \<and> pct_server_5xx idle_row = Fin (dbl 0)"
proof -
  have h1: "''/idle'' \<in> endpoint_base ` set idle_table"
    by (simp add: idle_table_def)
  have rows: "map row_requests_total idle_table = [0, 0]"
    by (simp add: idle_table_def)
  then have h2: "\<forall>r \<in> set idle_table. endpoint_base r = ''/idle'' \<longrightarrow> row_requests_total r = 0"
    by (simp add: idle_table_def)
  have key: "ep_endpoint_base idle_row = ''/idle''"
    by (simp add: idle_row_def)
  from zero_requests_endpoint [OF h1 h2] build_idle_table key
  have "ep_avg_elapsed_ms idle_row = Fin (dbl 0) \<and> ep_p90_elapsed_ms idle_row = Fin (dbl 0)
      \<and> pct_success idle_row = Fin (dbl 0) \<and> pct_client_4xx idle_row = Fin (dbl 0)
      \<and> pct_server_5xx idle_row = Fin (dbl 0)"
    by simp
  with h1 rows build_idle_table key show ?thesis by blast
qed

end
